theory Spec2Isabelle
  imports
    Main
    "HOL-Library.Multiset"
    "HOL-Library.Char_ord"
    "HOL-Library.List_Lexorder"
    "HOL-Library.Product_Lexorder"
begin

section \<open>Values and documents\<close>

text \<open>
  The server (\<^verbatim>\<open>index.js\<close>) keeps four MongoDB collections and maps every route to one
  or two operations on them. A stored field or a field of a JSON request body holds a
  scalar: null, a boolean, a number, a string, a \<^verbatim>\<open>Date\<close> (milliseconds since the epoch)
  or an \<^verbatim>\<open>ObjectId\<close> (its 24 lower-case hexadecimal digits). JavaScript's
  \<^verbatim>\<open>undefined\<close> is \<open>None\<close> of \<open>jsval option\<close>. Nested objects and arrays are outside the
  model. A document keeps its fields in order, as an association list.
\<close>

datatype jsval =
    JNull
  | JBool bool
  | JNum int
  | JStr string
  | JDate int
  | JOid string

type_synonym doc = "(string \<times> jsval) list"

text \<open>JavaScript truthiness, as used by \<^verbatim>\<open>if (x)\<close>, \<^verbatim>\<open>!x\<close> and \<^verbatim>\<open>x || y\<close>.\<close>

fun truthy :: "jsval option \<Rightarrow> bool" where
  "truthy None = False"
| "truthy (Some JNull) = False"
| "truthy (Some (JBool b)) = b"
| "truthy (Some (JNum n)) = (n \<noteq> 0)"
| "truthy (Some (JStr s)) = (s \<noteq> [])"
| "truthy (Some (JDate t)) = True"
| "truthy (Some (JOid h)) = True"

text \<open>
  The driver serialises an \<^verbatim>\<open>undefined\<close> property of a query, an update or a document as
  BSON null (its \<^verbatim>\<open>ignoreUndefined\<close> option is off by default).
\<close>

fun to_bson :: "jsval option \<Rightarrow> jsval" where
  "to_bson None = JNull"
| "to_bson (Some v) = v"

text \<open>A query-string parameter is a string or absent.\<close>

definition qparam :: "string option \<Rightarrow> jsval option" where
  "qparam p = map_option JStr p"

subsection \<open>ObjectId\<close>

text \<open>
  \<^verbatim>\<open>new ObjectId(x)\<close> of the bson library: a string must be 24 hexadecimal digits (upper
  or lower case, denoting the same twelve bytes), otherwise the constructor throws;
  \<^verbatim>\<open>undefined\<close>, \<^verbatim>\<open>null\<close> and a number make it generate an identifier, here the
  argument \<open>gen\<close>; an ObjectId is copied; any other value throws.
\<close>

datatype exn = BSONError | ReferenceError | DuplicateKey

definition hex_lower :: "char \<Rightarrow> char option" where
  "hex_lower c =
     (if c \<in> set ''0123456789abcdef'' then Some c
      else map_of (zip ''ABCDEF'' ''abcdef'') c)"

definition isHex :: "string \<Rightarrow> bool" where
  "isHex s = list_all (\<lambda>c. hex_lower c \<noteq> None) s"

definition ObjectId_fromString :: "string \<Rightarrow> exn + string" where
  "ObjectId_fromString s =
     (if length s = 24 \<and> isHex s then Inr (map (\<lambda>c. the (hex_lower c)) s)
      else Inl BSONError)"

fun ObjectId_new :: "string \<Rightarrow> jsval option \<Rightarrow> exn + string" where
  "ObjectId_new gen None = Inr gen"
| "ObjectId_new gen (Some JNull) = Inr gen"
| "ObjectId_new gen (Some (JNum n)) = Inr gen"
| "ObjectId_new gen (Some (JStr s)) = ObjectId_fromString s"
| "ObjectId_new gen (Some (JOid h)) = Inr h"
| "ObjectId_new gen (Some (JBool b)) = Inl BSONError"
| "ObjectId_new gen (Some (JDate t)) = Inl BSONError"

section \<open>The document store\<close>

record store =
  usersCollection :: "doc list"
  parcelCollection :: "doc list"
  paymentsCollection :: "doc list"
  ridersCollection :: "doc list"

record update_result =
  matchedCount :: nat
  modifiedCount :: nat

text \<open>
  A query \<^verbatim>\<open>{k1: v1, ...}\<close> matches a document whose field \<open>k\<^sub>i\<close> equals \<open>v\<^sub>i\<close> for
  every \<open>i\<close>; a null in the query also matches a document without the field.
\<close>

definition field_matches :: "doc \<Rightarrow> string \<times> jsval \<Rightarrow> bool" where
  "field_matches d kv =
     (case kv of (k, v) \<Rightarrow>
        (if v = JNull then map_of d k = None \<or> map_of d k = Some JNull
         else map_of d k = Some v))"

definition matches :: "doc \<Rightarrow> doc \<Rightarrow> bool" where
  "matches q d = list_all (field_matches d) q"

definition findOne :: "doc \<Rightarrow> doc list \<Rightarrow> doc option" where
  "findOne q ds = List.find (matches q) ds"

definition find_docs :: "doc \<Rightarrow> doc list \<Rightarrow> doc list" where
  "find_docs q ds = filter (matches q) ds"

text \<open>
  \<^verbatim>\<open>$set\<close> replaces the value of a field in place and appends a field the document
  lacks.
\<close>

fun set_field :: "string \<Rightarrow> jsval \<Rightarrow> doc \<Rightarrow> doc" where
  "set_field k v [] = [(k, v)]"
| "set_field k v (p # d) = (if fst p = k then (k, v) # d else p # set_field k v d)"

fun apply_set :: "doc \<Rightarrow> doc \<Rightarrow> doc" where
  "apply_set [] d = d"
| "apply_set ((k, v) # kvs) d = apply_set kvs (set_field k v d)"

text \<open>
  \<^verbatim>\<open>updateOne(filter, {$set: ...})\<close> changes the first document that matches.
  \<^verbatim>\<open>modifiedCount\<close> is 0 when nothing matches and also when the matched document already
  holds every value that is set.
\<close>

fun updateOne :: "doc \<Rightarrow> doc \<Rightarrow> doc list \<Rightarrow> update_result \<times> doc list" where
  "updateOne q sets [] = (\<lparr>matchedCount = 0, modifiedCount = 0\<rparr>, [])"
| "updateOne q sets (d # ds) =
     (if matches q d
      then (\<lparr>matchedCount = 1, modifiedCount = (if apply_set sets d = d then 0 else 1)\<rparr>,
            apply_set sets d # ds)
      else (fst (updateOne q sets ds), d # snd (updateOne q sets ds)))"

fun deleteOne :: "doc \<Rightarrow> doc list \<Rightarrow> nat \<times> doc list" where
  "deleteOne q [] = (0, [])"
| "deleteOne q (d # ds) =
     (if matches q d then (1, ds)
      else (fst (deleteOne q ds), d # snd (deleteOne q ds)))"

text \<open>
  \<^verbatim>\<open>insertOne(doc)\<close>: a document without \<^verbatim>\<open>_id\<close> (or with a null one) gets the
  ObjectId the driver generates, here \<open>gen\<close>. The collection's unique index on
  \<^verbatim>\<open>_id\<close> rejects an identifier that is already stored.
\<close>

definition doc_id :: "doc \<Rightarrow> jsval option" where
  "doc_id d = map_of d ''_id''"

definition insertOne :: "doc \<Rightarrow> string \<Rightarrow> doc list \<Rightarrow> exn + (jsval \<times> doc list)" where
  "insertOne d gen ds =
     (let i = (if to_bson (doc_id d) = JNull then JOid gen else to_bson (doc_id d));
          d' = (''_id'', i) # filter (\<lambda>p. fst p \<noteq> ''_id'') d
      in if Some i \<in> set (map doc_id ds) then Inl DuplicateKey
         else Inr (i, ds @ [d']))"

text \<open>
  Sorting compares values of different types by BSON type (null and missing, then
  numbers, strings, ObjectIds, booleans, dates) and values of one type by their
  natural order. \<^verbatim>\<open>sort: {k: -1}\<close> is descending.
\<close>

fun bson_key :: "jsval option \<Rightarrow> nat \<times> int \<times> string" where
  "bson_key None = (1, 0, [])"
| "bson_key (Some JNull) = (1, 0, [])"
| "bson_key (Some (JNum n)) = (2, n, [])"
| "bson_key (Some (JStr s)) = (3, 0, s)"
| "bson_key (Some (JOid h)) = (7, 0, h)"
| "bson_key (Some (JBool b)) = (8, (if b then 1 else 0), [])"
| "bson_key (Some (JDate t)) = (9, t, [])"

definition sort_desc :: "string \<Rightarrow> doc list \<Rightarrow> doc list" where
  "sort_desc k ds = rev (sort_key (\<lambda>d. bson_key (map_of d k)) (rev ds))"

section \<open>Responses\<close>

datatype body =
    Message string
  | Error string
  | Success bool string
  | Docs "doc list"
  | RoleOf jsval
  | UpdateResult update_result
  | InsertResult jsval
  | DeleteResult nat
  | Assigned nat nat
  | PaymentRecorded jsval
  | TrackingLogged jsval

text \<open>
  A handler either sends a response (status and body) or, where the source has no
  \<^verbatim>\<open>try\<close> around a failing call, ends with an exception and sends nothing.
\<close>

datatype outcome = Sent nat body | Raised exn

section \<open>Access control\<close>

text \<open>
  The identity provider's \<^verbatim>\<open>verifyIdToken\<close> is a parameter: it yields the decoded
  token, of which the server reads the \<^verbatim>\<open>email\<close> claim (optional in a token), or it
  rejects the token (\<open>None\<close>).
\<close>

record decoded =
  email :: "string option"

text \<open>\<^verbatim>\<open>s.split(" ")\<close>.\<close>

fun split_space :: "string \<Rightarrow> string list" where
  "split_space [] = [[]]"
| "split_space (c # cs) =
     (if c = CHR '' '' then [] # split_space cs
      else (case split_space cs of
              [] \<Rightarrow> [[c]]
            | w # ws \<Rightarrow> (c # w) # ws))"

definition verifyFBToken ::
  "(string \<Rightarrow> decoded option) \<Rightarrow> string option \<Rightarrow> outcome + decoded" where
  "verifyFBToken verifyIdToken authHeader =
     (case authHeader of
        None \<Rightarrow> Inl (Sent 401 (Message ''unauthorize access''))
      | Some h \<Rightarrow>
          if h = [] then Inl (Sent 401 (Message ''unauthorize access''))
          else (case drop 1 (split_space h) of
                  [] \<Rightarrow> Inl (Sent 401 (Message ''unauthorize access''))
                | token # rest \<Rightarrow>
                    if token = [] then Inl (Sent 401 (Message ''unauthorize access''))
                    else (case verifyIdToken token of
                            None \<Rightarrow> Inl (Sent 403 (Message ''forbidden access''))
                          | Some d \<Rightarrow> Inr d)))"

text \<open>\<open>None\<close> is \<^verbatim>\<open>next()\<close>.\<close>

definition adminVerify :: "decoded \<Rightarrow> store \<Rightarrow> outcome option" where
  "adminVerify d s =
     (case findOne [(''email'', to_bson (qparam (email d)))] (usersCollection s) of
        None \<Rightarrow> Some (Sent 403 (Message ''Forbidden Access''))
      | Some user \<Rightarrow>
          if map_of user ''role'' \<noteq> Some (JStr ''admin'')
          then Some (Sent 403 (Message ''Forbidden Access''))
          else None)"

section \<open>Users\<close>

text \<open>\<^verbatim>\<open>GET /users/:email/role\<close>.\<close>

definition getUserRole :: "string \<Rightarrow> store \<Rightarrow> outcome" where
  "getUserRole em s =
     (if em = [] then Sent 400 (Error ''Email is required'')
      else (case findOne [(''email'', JStr em)] (usersCollection s) of
              None \<Rightarrow> Sent 404 (Error ''User not found'')
            | Some user \<Rightarrow>
                Sent 200 (RoleOf (if truthy (map_of user ''role'')
                                  then to_bson (map_of user ''role'')
                                  else JStr ''user''))))"

text \<open>
  \<^verbatim>\<open>POST /users\<close>. The handler has no \<^verbatim>\<open>try\<close>: a failing insert ends it without a
  response. \<open>now\<close> is \<^verbatim>\<open>new Date()\<close>.
\<close>

definition upsertUser :: "int \<Rightarrow> string \<Rightarrow> doc \<Rightarrow> store \<Rightarrow> outcome \<times> store" where
  "upsertUser now gen body s =
     (case findOne [(''email'', to_bson (map_of body ''email''))] (usersCollection s) of
        Some userExists \<Rightarrow> (Sent 200 (Message ''User already exists''), s)
      | None \<Rightarrow>
          (case insertOne (set_field ''created_at'' (JDate now) body) gen (usersCollection s) of
             Inl e \<Rightarrow> (Raised e, s)
           | Inr r \<Rightarrow> (Sent 200 (InsertResult (fst r)), s\<lparr>usersCollection := snd r\<rparr>)))"

text \<open>\<^verbatim>\<open>PATCH /users/:id/role\<close>.\<close>

definition setUserRole :: "string \<Rightarrow> jsval option \<Rightarrow> store \<Rightarrow> outcome \<times> store" where
  "setUserRole ident role s =
     (if role \<noteq> Some (JStr ''admin'') \<and> role \<noteq> Some (JStr ''user'')
      then (Sent 400 (Error ''Invalid role''), s)
      else (case ObjectId_fromString ident of
              Inl e \<Rightarrow> (Sent 500 (Error ''Could not update user role''), s)
            | Inr oid \<Rightarrow>
                (let r = updateOne [(''_id'', JOid oid)] [(''role'', to_bson role)]
                           (usersCollection s)
                 in (Sent 200 (UpdateResult (fst r)), s\<lparr>usersCollection := snd r\<rparr>))))"

section \<open>Parcels\<close>

text \<open>\<^verbatim>\<open>GET /parcels\<close>: the handler, and the route behind the credential gate.\<close>

definition listParcels :: "string option \<Rightarrow> string option \<Rightarrow> store \<Rightarrow> outcome" where
  "listParcels payment_status delivery_status s =
     (let query =
            (if truthy (qparam payment_status)
             then [(''payment_status'', to_bson (qparam payment_status))] else []) @
            (if truthy (qparam delivery_status)
             then [(''delivery_status'', to_bson (qparam delivery_status))] else [])
      in Sent 200 (Docs (sort_desc ''createdAt'' (find_docs query (parcelCollection s)))))"

definition get_parcels ::
  "(string \<Rightarrow> decoded option) \<Rightarrow> string option \<Rightarrow> string option \<Rightarrow> string option \<Rightarrow>
   store \<Rightarrow> outcome" where
  "get_parcels verifyIdToken authHeader payment_status delivery_status s =
     (case verifyFBToken verifyIdToken authHeader of
        Inl r \<Rightarrow> r
      | Inr d \<Rightarrow> listParcels payment_status delivery_status s)"

text \<open>\<^verbatim>\<open>GET /parcels/:id\<close>, \<^verbatim>\<open>POST /parcels\<close>, \<^verbatim>\<open>DELETE /parcels/:id\<close>.\<close>

definition getParcel :: "string \<Rightarrow> store \<Rightarrow> outcome" where
  "getParcel ident s =
     (case ObjectId_fromString ident of
        Inl e \<Rightarrow> Sent 500 (Message ''Failed to fetch parcel'')
      | Inr oid \<Rightarrow>
          (case findOne [(''_id'', JOid oid)] (parcelCollection s) of
             None \<Rightarrow> Sent 404 (Message ''Parcel not found'')
           | Some parcel \<Rightarrow> Sent 200 (Docs [parcel])))"

definition createParcel :: "string \<Rightarrow> doc \<Rightarrow> store \<Rightarrow> outcome \<times> store" where
  "createParcel gen newParcel s =
     (case insertOne newParcel gen (parcelCollection s) of
        Inl e \<Rightarrow> (Sent 500 (Message ''Failed to create parcel''), s)
      | Inr r \<Rightarrow> (Sent 201 (InsertResult (fst r)), s\<lparr>parcelCollection := snd r\<rparr>))"

definition deleteParcel :: "string \<Rightarrow> store \<Rightarrow> outcome \<times> store" where
  "deleteParcel ident s =
     (case ObjectId_fromString ident of
        Inl e \<Rightarrow> (Sent 500 (Message ''Failed to delete parcel''), s)
      | Inr oid \<Rightarrow>
          (let r = deleteOne [(''_id'', JOid oid)] (parcelCollection s)
           in (Sent 200 (DeleteResult (fst r)), s\<lparr>parcelCollection := snd r\<rparr>)))"

text \<open>
  \<^verbatim>\<open>POST /parcels/assign\<close>. \<^verbatim>\<open>new ObjectId(parcelId)\<close> is evaluated once for the parcel
  filter and once for the rider's \<^verbatim>\<open>current_parcel\<close>.
\<close>

definition assignRider ::
  "int \<Rightarrow> string \<Rightarrow> string \<Rightarrow> doc \<Rightarrow> store \<Rightarrow> outcome \<times> store" where
  "assignRider now gen1 gen2 body s =
     (let parcelId = map_of body ''parcelId'';
          riderEmail = map_of body ''riderEmail'';
          assignedAt = map_of body ''assignedAt''
      in if \<not> truthy parcelId \<or> \<not> truthy riderEmail
         then (Sent 400 (Error ''parcelId and riderEmail are required''), s)
         else (case ObjectId_new gen1 parcelId of
                 Inl e \<Rightarrow> (Sent 500 (Error ''Internal server error''), s)
               | Inr pid \<Rightarrow>
                   (let parcelUpdateResult =
                          updateOne [(''_id'', JOid pid)]
                            [(''delivery_status'', JStr ''in_transit''),
                             (''assigned_rider'', to_bson riderEmail),
                             (''assigned_at'',
                                (if truthy assignedAt then to_bson assignedAt else JDate now))]
                            (parcelCollection s);
                        s1 = s\<lparr>parcelCollection := snd parcelUpdateResult\<rparr>
                    in (case ObjectId_new gen2 parcelId of
                          Inl e \<Rightarrow> (Sent 500 (Error ''Internal server error''), s1)
                        | Inr cur \<Rightarrow>
                            (let riderUpdateResult =
                                   updateOne [(''email'', to_bson riderEmail)]
                                     [(''work_status'', JStr ''in_delivery''),
                                      (''current_parcel'', JOid cur)]
                                     (ridersCollection s1)
                             in (Sent 200
                                   (Assigned (modifiedCount (fst parcelUpdateResult))
                                             (modifiedCount (fst riderUpdateResult))),
                                 s1\<lparr>ridersCollection := snd riderUpdateResult\<rparr>))))))"

section \<open>Riders\<close>

text \<open>\<^verbatim>\<open>POST /riders\<close> (no \<^verbatim>\<open>try\<close>).\<close>

definition applyAsRider :: "string \<Rightarrow> doc \<Rightarrow> store \<Rightarrow> outcome \<times> store" where
  "applyAsRider gen rider s =
     (case insertOne rider gen (ridersCollection s) of
        Inl e \<Rightarrow> (Raised e, s)
      | Inr r \<Rightarrow> (Sent 200 (InsertResult (fst r)), s\<lparr>ridersCollection := snd r\<rparr>))"

text \<open>\<^verbatim>\<open>GET /riders/pending\<close> and \<^verbatim>\<open>GET /riders/active\<close>, behind both gates.\<close>

definition listPendingRiders :: "store \<Rightarrow> outcome" where
  "listPendingRiders s =
     Sent 200 (Docs (sort_desc ''applied_at''
       (find_docs [(''status'', JStr ''pending'')] (ridersCollection s))))"

definition listActiveRiders :: "store \<Rightarrow> outcome" where
  "listActiveRiders s =
     Sent 200 (Docs (find_docs [(''status'', JStr ''active'')] (ridersCollection s)))"

text \<open>\<^verbatim>\<open>PATCH /riders/status/:id\<close>.\<close>

definition setRiderStatus :: "int \<Rightarrow> string \<Rightarrow> jsval option \<Rightarrow> store \<Rightarrow> outcome \<times> store" where
  "setRiderStatus now ident status s =
     (case ObjectId_fromString ident of
        Inl e \<Rightarrow> (Sent 500 (Success False ''Server error''), s)
      | Inr oid \<Rightarrow>
          (let r = updateOne [(''_id'', JOid oid)]
                     [(''status'', to_bson status), (''updated_at'', JDate now)]
                     (ridersCollection s);
               s1 = s\<lparr>ridersCollection := snd r\<rparr>
           in if modifiedCount (fst r) > 0
              then (Sent 200 (Success True ''Status updated''), s1)
              else (Sent 404 (Success False ''Rider not found or already updated''), s1)))"

text \<open>\<^verbatim>\<open>PATCH /riders/:id/status\<close>: the handler, and the route behind both gates.\<close>

definition approveOrRejectRider ::
  "string \<Rightarrow> jsval option \<Rightarrow> store \<Rightarrow> outcome \<times> store" where
  "approveOrRejectRider ident status s =
     (if status \<noteq> Some (JStr ''active'') \<and> status \<noteq> Some (JStr ''rejected'')
      then (Sent 400 (Error ''Invalid status value''), s)
      else (case ObjectId_fromString ident of
              Inl e \<Rightarrow> (Sent 500 (Error ''Failed to update rider status''), s)
            | Inr oid \<Rightarrow>
                (let r = updateOne [(''_id'', JOid oid)] [(''status'', to_bson status)]
                           (ridersCollection s);
                     s1 = s\<lparr>ridersCollection := snd r\<rparr>;
                     s2 = (if status = Some (JStr ''active'')
                           then (case findOne [(''_id'', JOid oid)] (ridersCollection s1) of
                                   None \<Rightarrow> s1
                                 | Some rider \<Rightarrow>
                                     if truthy (map_of rider ''email'')
                                     then s1\<lparr>usersCollection :=
                                            snd (updateOne
                                                  [(''email'', to_bson (map_of rider ''email''))]
                                                  [(''role'', JStr ''rider'')]
                                                  (usersCollection s1))\<rparr>
                                     else s1)
                           else s1)
                 in (Sent 200 (UpdateResult (fst r)), s2))))"

definition patch_riders_id_status ::
  "(string \<Rightarrow> decoded option) \<Rightarrow> string option \<Rightarrow> string \<Rightarrow> jsval option \<Rightarrow> store \<Rightarrow>
   outcome \<times> store" where
  "patch_riders_id_status verifyIdToken authHeader ident status s =
     (case verifyFBToken verifyIdToken authHeader of
        Inl r \<Rightarrow> (r, s)
      | Inr d \<Rightarrow>
          (case adminVerify d s of
             Some r \<Rightarrow> (r, s)
           | None \<Rightarrow> approveOrRejectRider ident status s))"

text \<open>\<^verbatim>\<open>GET /riders/available\<close>.\<close>

definition availableRiders :: "string option \<Rightarrow> store \<Rightarrow> outcome" where
  "availableRiders district s =
     (if \<not> truthy (qparam district) then Sent 400 (Error ''District required'')
      else Sent 200 (Docs (find_docs [(''district'', to_bson (qparam district))]
                             (ridersCollection s))))"

text \<open>\<^verbatim>\<open>DELETE /riders/:id\<close>.\<close>

definition rejectRider :: "string \<Rightarrow> store \<Rightarrow> outcome \<times> store" where
  "rejectRider ident s =
     (case ObjectId_fromString ident of
        Inl e \<Rightarrow> (Sent 500 (Success False ''Server error while rejecting rider.''), s)
      | Inr oid \<Rightarrow>
          (let r = deleteOne [(''_id'', JOid oid)] (ridersCollection s);
               s1 = s\<lparr>ridersCollection := snd r\<rparr>
           in if fst r > 0
              then (Sent 200 (Success True ''Rider application rejected and deleted.''), s1)
              else (Sent 404 (Success False ''Rider not found.''), s1)))"

section \<open>Tracking\<close>

text \<open>
  The collection handles that \<^verbatim>\<open>run()\<close> binds, each with its reader and writer on
  the store. No other collection handle is declared in the program.
\<close>

definition bindings ::
  "(string \<times> (store \<Rightarrow> doc list) \<times> (doc list \<Rightarrow> store \<Rightarrow> store)) list" where
  "bindings =
     [(''usersCollection'', usersCollection, \<lambda>c. usersCollection_update (\<lambda>old. c)),
      (''parcelCollection'', parcelCollection, \<lambda>c. parcelCollection_update (\<lambda>old. c)),
      (''paymentsCollection'', paymentsCollection, \<lambda>c. paymentsCollection_update (\<lambda>old. c)),
      (''ridersCollection'', ridersCollection, \<lambda>c. ridersCollection_update (\<lambda>old. c))]"

text \<open>
  \<^verbatim>\<open>POST /tracking\<close> (no \<^verbatim>\<open>try\<close>). The log is built first; then the handler reads the
  identifier \<^verbatim>\<open>trackingCollection\<close>, and JavaScript raises a ReferenceError for an
  identifier that has no binding.
\<close>

definition tracking ::
  "int \<Rightarrow> string \<Rightarrow> string \<Rightarrow> doc \<Rightarrow> store \<Rightarrow> outcome \<times> store" where
  "tracking now gen gen_id body s =
     (let parcel_id = map_of body ''parcel_id'';
          updated_by = (case map_of body ''updated_by'' of None \<Rightarrow> JStr [] | Some v \<Rightarrow> v)
      in (case (if truthy parcel_id
                then (case ObjectId_new gen parcel_id of
                        Inl e \<Rightarrow> Inl e
                      | Inr h \<Rightarrow> Inr (JOid h))
                else Inr JNull) of
            Inl e \<Rightarrow> (Raised e, s)
          | Inr pid \<Rightarrow>
              (let log = [(''tracking_id'', to_bson (map_of body ''tracking_id'')),
                          (''parcel_id'', pid),
                          (''status'', to_bson (map_of body ''status'')),
                          (''message'', to_bson (map_of body ''message'')),
                          (''time'', JDate now),
                          (''updated_by'', updated_by)]
               in (case map_of bindings ''trackingCollection'' of
                     None \<Rightarrow> (Raised ReferenceError, s)
                   | Some trackingCollection \<Rightarrow>
                       (case insertOne log gen_id (fst trackingCollection s) of
                          Inl e \<Rightarrow> (Raised e, s)
                        | Inr r \<Rightarrow>
                            (Sent 200 (TrackingLogged (fst r)),
                             snd trackingCollection (snd r) s))))))"

section \<open>Payments\<close>



text \<open>
  \<^verbatim>\<open>POST /payments\<close>. The payment document reads the clock twice: \<open>now1\<close> for
  \<^verbatim>\<open>new Date().toISOString()\<close> and then \<open>now2\<close> for \<^verbatim>\<open>paid_at\<close>. The runtime's
  \<^verbatim>\<open>toISOString\<close> is a parameter. \<open>gen\<close> is the identifier \<^verbatim>\<open>new ObjectId\<close> generates
  when \<^verbatim>\<open>parcelId\<close> is missing or a number, \<open>gen_id\<close> the one the driver generates for
  the inserted payment.
\<close>

definition paymentDoc :: "(int \<Rightarrow> string) \<Rightarrow> int \<Rightarrow> int \<Rightarrow> doc \<Rightarrow> doc" where
  "paymentDoc toISOString now1 now2 body =
     [(''parcelId'', to_bson (map_of body ''parcelId'')),
      (''email'', to_bson (map_of body ''email'')),
      (''amount'', to_bson (map_of body ''amount'')),
      (''paymentMethod'', to_bson (map_of body ''paymentMethod'')),
      (''transactionId'', to_bson (map_of body ''transactionId'')),
      (''paid_at_string'', JStr (toISOString now1)),
      (''paid_at'', JDate now2)]"

definition recordPayment ::
  "(int \<Rightarrow> string) \<Rightarrow> int \<Rightarrow> int \<Rightarrow> string \<Rightarrow> string \<Rightarrow> doc \<Rightarrow> store \<Rightarrow> outcome \<times> store" where
  "recordPayment toISOString now1 now2 gen gen_id body s =
     (case ObjectId_new gen (map_of body ''parcelId'') of
        Inl e \<Rightarrow> (Sent 500 (Message ''Failed to record payment''), s)
      | Inr oid \<Rightarrow>
          (let updateResult =
                 updateOne [(''_id'', JOid oid)] [(''payment_status'', JStr ''paid'')]
                   (parcelCollection s);
               s1 = s\<lparr>parcelCollection := snd updateResult\<rparr>
           in if modifiedCount (fst updateResult) = 0
              then (Sent 404 (Message ''Parcel not found or already paid''), s1)
              else (case insertOne (paymentDoc toISOString now1 now2 body) gen_id
                           (paymentsCollection s1) of
                      Inl e \<Rightarrow> (Sent 500 (Message ''Failed to record payment''), s1)
                    | Inr r \<Rightarrow>
                        (Sent 201 (PaymentRecorded (fst r)),
                         s1\<lparr>paymentsCollection := snd r\<rparr>))))"

section \<open>The server as a transition system\<close>

text \<open>
  The requests that can write to the store, each with the values its handler reads from
  the environment (clock readings, generated identifiers). Every other route only reads.
\<close>

datatype request =
    PostUsers int string doc
  | PatchUsersRole string "jsval option"
  | PostParcels string doc
  | DeleteParcels string
  | PostRiders string doc
  | PatchRidersStatus int string "jsval option"
  | PatchRidersIdStatus "string option" string "jsval option"
  | PostParcelsAssign int string string doc
  | DeleteRiders string
  | PostTracking int string string doc
  | PostPayments int int string string doc

fun handle ::
  "(string \<Rightarrow> decoded option) \<Rightarrow> (int \<Rightarrow> string) \<Rightarrow> request \<Rightarrow> store \<Rightarrow> outcome \<times> store" where
  "handle v toISOString (PostUsers now gen body) s = upsertUser now gen body s"
| "handle v toISOString (PatchUsersRole ident role) s = setUserRole ident role s"
| "handle v toISOString (PostParcels gen body) s = createParcel gen body s"
| "handle v toISOString (DeleteParcels ident) s = deleteParcel ident s"
| "handle v toISOString (PostRiders gen body) s = applyAsRider gen body s"
| "handle v toISOString (PatchRidersStatus now ident status) s = setRiderStatus now ident status s"
| "handle v toISOString (PatchRidersIdStatus auth ident status) s =
     patch_riders_id_status v auth ident status s"
| "handle v toISOString (PostParcelsAssign now gen1 gen2 body) s = assignRider now gen1 gen2 body s"
| "handle v toISOString (DeleteRiders ident) s = rejectRider ident s"
| "handle v toISOString (PostTracking now gen gen_id body) s = tracking now gen gen_id body s"
| "handle v toISOString (PostPayments now1 now2 gen gen_id body) s =
     recordPayment toISOString now1 now2 gen gen_id body s"

text \<open>
  MongoDB keeps \<^verbatim>\<open>_id\<close> unique within a collection. The server starts on any database
  and then serves requests one after the other.
\<close>

definition unique_ids :: "doc list \<Rightarrow> bool" where
  "unique_ids ds = distinct (map doc_id ds)"

inductive reachable ::
  "(string \<Rightarrow> decoded option) \<Rightarrow> (int \<Rightarrow> string) \<Rightarrow> store \<Rightarrow> bool"
  for v :: "string \<Rightarrow> decoded option" and toISOString :: "int \<Rightarrow> string" where
  start: "unique_ids (parcelCollection s) \<Longrightarrow> reachable v toISOString s"
| request: "reachable v toISOString s \<Longrightarrow> reachable v toISOString (snd (handle v toISOString r s))"

definition parcel_of :: "jsval \<Rightarrow> store \<Rightarrow> doc option" where
  "parcel_of i s = List.find (\<lambda>d. doc_id d = Some i) (parcelCollection s)"

definition paid :: "doc \<Rightarrow> bool" where
  "paid d = (map_of d ''payment_status'' = Some (JStr ''paid''))"

section \<open>Example data\<close>

text \<open>A small database used to run the handlers on concrete requests.\<close>

definition ex_admin :: doc where
  "ex_admin = [(''_id'', JOid ''0000000000000000000000a1''),
               (''email'', JStr ''admin@example.com''), (''role'', JStr ''admin'')]"

definition ex_user :: doc where
  "ex_user = [(''_id'', JOid ''0000000000000000000000a2''),
              (''email'', JStr ''r@example.com''), (''role'', JStr ''user'')]"

definition ex_parcel_unpaid :: doc where
  "ex_parcel_unpaid = [(''_id'', JOid ''0000000000000000000000b1''),
                       (''payment_status'', JStr ''unpaid''),
                       (''delivery_status'', JStr ''pending''),
                       (''createdAt'', JDate 100)]"

definition ex_parcel_paid :: doc where
  "ex_parcel_paid = [(''_id'', JOid ''0000000000000000000000b2''),
                     (''payment_status'', JStr ''paid''),
                     (''delivery_status'', JStr ''pending''),
                     (''createdAt'', JDate 200)]"

definition ex_rider_pending :: doc where
  "ex_rider_pending = [(''_id'', JOid ''0000000000000000000000c1''),
                       (''email'', JStr ''r@example.com''), (''district'', JStr ''Dhaka''),
                       (''status'', JStr ''pending''), (''work_status'', JStr ''available'')]"

definition ex_rider_rejected :: doc where
  "ex_rider_rejected = [(''_id'', JOid ''0000000000000000000000c2''),
                        (''email'', JStr ''q@example.com''), (''district'', JStr ''Dhaka''),
                        (''status'', JStr ''rejected''), (''work_status'', JStr ''in_delivery'')]"

definition ex_rider_other :: doc where
  "ex_rider_other = [(''_id'', JOid ''0000000000000000000000c3''),
                     (''email'', JStr ''k@example.com''), (''district'', JStr ''Khulna''),
                     (''status'', JStr ''active''), (''work_status'', JStr ''available'')]"

definition ex_payment_old :: doc where
  "ex_payment_old = [(''_id'', JOid ''0000000000000000000000d1''),
                     (''parcelId'', JStr ''0000000000000000000000b2''),
                     (''email'', JStr ''r@example.com''), (''amount'', JNum 50),
                     (''paid_at'', JDate 150)]"

definition ex_payment_new :: doc where
  "ex_payment_new = [(''_id'', JOid ''0000000000000000000000d2''),
                     (''parcelId'', JStr ''0000000000000000000000b9''),
                     (''email'', JStr ''r@example.com''), (''amount'', JNum 70),
                     (''paid_at'', JDate 250)]"

definition ex_payment_other :: doc where
  "ex_payment_other = [(''_id'', JOid ''0000000000000000000000d3''),
                       (''parcelId'', JStr ''0000000000000000000000b8''),
                       (''email'', JStr ''q@example.com''), (''amount'', JNum 90),
                       (''paid_at'', JDate 300)]"

definition ex_store :: store where
  "ex_store =
     \<lparr>usersCollection = [ex_admin, ex_user],
      parcelCollection = [ex_parcel_unpaid, ex_parcel_paid],
      paymentsCollection = [ex_payment_old, ex_payment_new, ex_payment_other],
      ridersCollection = [ex_rider_pending, ex_rider_rejected, ex_rider_other]\<rparr>"

text \<open>An identity provider that accepts the token \<^verbatim>\<open>tok-admin\<close> of the administrator
  and the token \<^verbatim>\<open>tok-r\<close> of the user \<^verbatim>\<open>r@example.com\<close>.\<close>

definition ex_verifyIdToken :: "string \<Rightarrow> decoded option" where
  "ex_verifyIdToken t =
     (if t = ''tok-admin'' then Some \<lparr>email = Some ''admin@example.com''\<rparr>
      else if t = ''tok-r'' then Some \<lparr>email = Some ''r@example.com''\<rparr>
      else None)"

definition ex_toISOString :: "int \<Rightarrow> string" where
  "ex_toISOString t = (if t = 0 then ''1970-01-01T00:00:00.000Z'' else ''1970-01-01T00:00:00.001Z'')"



section \<open>Auxiliary facts\<close>

lemma map_of_set_field:
  "map_of (set_field k v d) k' = (if k' = k then Some v else map_of d k')"
  by (induction d) auto

lemma set_field_noop: "map_of d k = Some v \<Longrightarrow> set_field k v d = d"
  by (induction d) (auto split: if_splits)

lemma set_field_changed: "map_of d k \<noteq> Some v \<Longrightarrow> set_field k v d \<noteq> d"
  by (induction d) (auto split: if_splits)

lemma updateOne_unmodified:
  "modifiedCount (fst (updateOne q sets ds)) = 0 \<Longrightarrow> snd (updateOne q sets ds) = ds"
  by (induction ds) (auto split: if_splits)

lemma updateOne_no_match:
  "findOne q ds = None \<Longrightarrow> updateOne q sets ds = (\<lparr>matchedCount = 0, modifiedCount = 0\<rparr>, ds)"
  by (induction ds) (auto simp: findOne_def split: if_splits)

lemma updateOne_match:
  "findOne q ds = Some d \<Longrightarrow>
   \<exists>pre post. ds = pre @ d # post \<and> (\<forall>x \<in> set pre. \<not> matches q x) \<and>
     updateOne q sets ds =
       (\<lparr>matchedCount = 1, modifiedCount = (if apply_set sets d = d then 0 else 1)\<rparr>,
        pre @ apply_set sets d # post)"
proof (induction ds)
  case Nil
  then show ?case by (simp add: findOne_def)
next
  case (Cons x xs)
  show ?case
  proof (cases "matches q x")
    case True
    with Cons.prems have "x = d" by (simp add: findOne_def)
    with True show ?thesis by (intro exI[of _ "[]"] exI[of _ xs]) simp
  next
    case False
    with Cons.prems have "findOne q xs = Some d" by (simp add: findOne_def)
    from Cons.IH[OF this] obtain pre post where
      "xs = pre @ d # post" "\<forall>x \<in> set pre. \<not> matches q x"
      "updateOne q sets xs =
       (\<lparr>matchedCount = 1, modifiedCount = (if apply_set sets d = d then 0 else 1)\<rparr>,
        pre @ apply_set sets d # post)" by blast
    with False show ?thesis
      by (intro exI[of _ "x # pre"] exI[of _ post]) simp
  qed
qed

lemma find_append_first:
  "\<forall>x \<in> set pre. \<not> P x \<Longrightarrow> P y \<Longrightarrow> List.find P (pre @ y # post) = Some y"
  by (induction pre) auto

lemma sort_desc_mset: "mset (sort_desc k ds) = mset ds"
  by (simp add: sort_desc_def)

lemma sort_desc_sorted:
  "sorted_wrt (\<lambda>a b. bson_key (map_of b k) \<le> bson_key (map_of a k)) (sort_desc k ds)"
proof -
  have "sorted (map (\<lambda>d. bson_key (map_of d k)) (sort_key (\<lambda>d. bson_key (map_of d k)) (rev ds)))"
    by (rule sorted_sort_key)
  then show ?thesis
    by (simp add: sort_desc_def sorted_wrt_rev sorted_map)
qed

lemma findOne_append_match:
  "\<forall>x \<in> set pre. \<not> matches q x \<Longrightarrow> matches q y \<Longrightarrow> findOne q (pre @ y # post) = Some y"
  by (simp add: findOne_def find_append_first)

lemma matches_id_set_field:
  "k \<noteq> ''_id'' \<Longrightarrow> matches [(''_id'', JOid oid)] (set_field k v d) = matches [(''_id'', JOid oid)] d"
  by (simp add: matches_def field_matches_def map_of_set_field)

lemma matches_single:
  "v \<noteq> JNull \<Longrightarrow> matches [(k, v)] = (\<lambda>d. map_of d k = Some v)"
  by (rule ext) (simp add: matches_def field_matches_def)

lemma map_of_apply_set_other:
  "k \<notin> fst ` set sets \<Longrightarrow> map_of (apply_set sets d) k = map_of d k"
  by (induction sets arbitrary: d) (auto simp: map_of_set_field)

lemma matches_apply_set:
  "fst ` set q \<inter> fst ` set sets = {} \<Longrightarrow> matches q (apply_set sets d) = matches q d"
proof -
  assume dj: "fst ` set q \<inter> fst ` set sets = {}"
  have "field_matches (apply_set sets d) kv = field_matches d kv" if "kv \<in> set q" for kv
  proof -
    from that dj have "fst kv \<notin> fst ` set sets" by auto
    then show ?thesis
      by (cases kv) (simp add: field_matches_def map_of_apply_set_other)
  qed
  then show ?thesis
    by (auto simp: matches_def list_all_iff)
qed

lemma updateOne_effect:
  assumes dj: "fst ` set q \<inter> fst ` set sets = {}"
  shows "(findOne q ds = None \<longrightarrow>
            updateOne q sets ds = (\<lparr>matchedCount = 0, modifiedCount = 0\<rparr>, ds)) \<and>
         (\<forall>d. findOne q ds = Some d \<longrightarrow>
            fst (updateOne q sets ds) =
              \<lparr>matchedCount = 1, modifiedCount = (if apply_set sets d = d then 0 else 1)\<rparr> \<and>
            findOne q (snd (updateOne q sets ds)) = Some (apply_set sets d))"
proof (intro conjI impI allI)
  assume "findOne q ds = None"
  then show "updateOne q sets ds = (\<lparr>matchedCount = 0, modifiedCount = 0\<rparr>, ds)"
    by (rule updateOne_no_match)
next
  fix d
  assume f: "findOne q ds = Some d"
  from updateOne_match[OF f, of sets] obtain pre post where
    pre: "\<forall>x \<in> set pre. \<not> matches q x" and
    up: "updateOne q sets ds =
          (\<lparr>matchedCount = 1, modifiedCount = (if apply_set sets d = d then 0 else 1)\<rparr>,
           pre @ apply_set sets d # post)"
    by auto
  from f have "matches q d" by (auto simp: findOne_def find_Some_iff)
  with dj have m: "matches q (apply_set sets d)" by (simp add: matches_apply_set)
  show "fst (updateOne q sets ds) =
          \<lparr>matchedCount = 1, modifiedCount = (if apply_set sets d = d then 0 else 1)\<rparr>"
    by (simp add: up)
  show "findOne q (snd (updateOne q sets ds)) = Some (apply_set sets d)"
    using findOne_append_match[OF pre m] by (simp add: up)
qed

lemma ObjectId_new_error: "ObjectId_new gen x = Inl e \<Longrightarrow> e = BSONError"
  by (cases "(gen, x)" rule: ObjectId_new.cases)
     (auto simp: ObjectId_fromString_def split: if_splits)

lemmas ex_docs =
  ex_admin_def ex_user_def ex_parcel_unpaid_def ex_parcel_paid_def ex_rider_pending_def
  ex_rider_rejected_def ex_rider_other_def ex_payment_old_def ex_payment_new_def
  ex_payment_other_def

lemmas eval_query = findOne_def matches_def field_matches_def

lemmas eval_oid = ObjectId_fromString_def isHex_def hex_lower_def

lemma paid_noop: "(apply_set [(''payment_status'', JStr ''paid'')] d = d) = paid d"
  using set_field_noop[of d "''payment_status''" "JStr ''paid''"]
    set_field_changed[of d "''payment_status''" "JStr ''paid''"]
  by (auto simp: paid_def)

lemma insertOne_generated:
  "doc_id d = None \<Longrightarrow> Some (JOid gen) \<notin> set (map doc_id ds) \<Longrightarrow>
   insertOne d gen ds = Inr (JOid gen, ds @ [(''_id'', JOid gen) # filter (\<lambda>p. fst p \<noteq> ''_id'') d])"
  by (simp add: insertOne_def Let_def)

lemma doc_id_paymentDoc: "doc_id (paymentDoc f n1 n2 body) = None"
  by (simp add: doc_id_def paymentDoc_def)

lemma filter_id_paymentDoc:
  "filter (\<lambda>p. fst p \<noteq> ''_id'') (paymentDoc f n1 n2 body) = paymentDoc f n1 n2 body"
  by (simp add: paymentDoc_def)

lemma map_of_filter_id:
  "map_of (filter (\<lambda>p. fst p \<noteq> ''_id'') d) k = (if k = ''_id'' then None else map_of d k)"
  by (induction d) auto

lemma insertOne_cases:
  "insertOne d gen ds =
     (let i = (if to_bson (doc_id d) = JNull then JOid gen else to_bson (doc_id d))
      in if Some i \<in> set (map doc_id ds) then Inl DuplicateKey
         else Inr (i, ds @ [(''_id'', i) # filter (\<lambda>p. fst p \<noteq> ''_id'') d]))"
  by (simp add: insertOne_def Let_def)

lemma findOne_snoc_match: "matches q d \<Longrightarrow> findOne q (ds @ [d]) \<noteq> None"
  by (auto simp: findOne_def find_None_iff)

lemma matches_email_inserted:
  "matches [(''email'', to_bson (map_of body ''email''))]
     ((''_id'', i) # filter (\<lambda>p. fst p \<noteq> ''_id'') (set_field ''created_at'' v body))"
  by (cases "map_of body ''email''")
     (simp_all add: matches_def field_matches_def map_of_filter_id map_of_set_field)

lemma matches_append: "matches (q1 @ q2) d = (matches q1 d \<and> matches q2 d)"
  by (simp add: matches_def)

lemma bson_key_dates:
  "(bson_key (Some (JDate t')) \<le> bson_key (Some (JDate t))) = (t' \<le> t)"
  by (auto simp: less_eq_prod_def)

lemma sort_desc_dates:
  assumes "ps = sort_desc k ds" "i < j" "j < length ps"
    "map_of (ps ! i) k = Some (JDate t)" "map_of (ps ! j) k = Some (JDate t')"
  shows "t' \<le> t"
proof -
  have "sorted_wrt (\<lambda>a b. bson_key (map_of b k) \<le> bson_key (map_of a k)) ps"
    using assms(1) by (simp add: sort_desc_sorted)
  then have "bson_key (map_of (ps ! j) k) \<le> bson_key (map_of (ps ! i) k)"
    using assms(2,3) by (simp add: sorted_wrt_iff_nth_less)
  then show ?thesis using assms(4,5) by (simp only: bson_key_dates)
qed

lemma doc_id_apply_set:
  "''_id'' \<notin> fst ` set sets \<Longrightarrow> doc_id (apply_set sets d) = doc_id d"
  by (simp add: doc_id_def map_of_apply_set_other)

lemma matches_id: "matches [(''_id'', JOid oid)] d = (doc_id d = Some (JOid oid))"
  by (simp add: matches_def field_matches_def doc_id_def)

lemma parcel_of_findOne:
  "parcel_of (JOid oid) s = findOne [(''_id'', JOid oid)] (parcelCollection s)"
proof -
  have "(\<lambda>d. doc_id d = Some (JOid oid)) = matches [(''_id'', JOid oid)]"
    by (rule ext) (simp add: matches_id)
  then show ?thesis by (simp add: parcel_of_def findOne_def)
qed

lemma find_replace:
  "P a = P b \<Longrightarrow> List.find P (pre @ a # post) = Some x \<Longrightarrow>
   List.find P (pre @ b # post) = Some y \<Longrightarrow> y = x \<or> (x = a \<and> y = b)"
  by (induction pre) (auto split: if_splits)

lemma updateOne_find_id:
  assumes k: "''_id'' \<notin> fst ` set sets"
    and old: "List.find (\<lambda>d. doc_id d = Some i) ds = Some p"
    and new: "List.find (\<lambda>d. doc_id d = Some i) (snd (updateOne q sets ds)) = Some p'"
  shows "p' = p \<or> (findOne q ds = Some p \<and> p' = apply_set sets p)"
proof (cases "findOne q ds")
  case None
  then have "snd (updateOne q sets ds) = ds" by (simp add: updateOne_no_match)
  with old new show ?thesis by simp
next
  case (Some d0)
  from updateOne_match[OF Some, of sets] obtain pre post where
    ds: "ds = pre @ d0 # post" and
    up: "snd (updateOne q sets ds) = pre @ apply_set sets d0 # post"
    by auto
  have same: "(doc_id d0 = Some i) = (doc_id (apply_set sets d0) = Some i)"
    using k by (simp add: doc_id_apply_set)
  from find_replace[of "\<lambda>d. doc_id d = Some i" d0 "apply_set sets d0" pre post p p', OF same]
    old new ds up
  have "p' = p \<or> (p = d0 \<and> p' = apply_set sets d0)" by simp
  with Some show ?thesis by auto
qed

lemma updateOne_ids:
  "''_id'' \<notin> fst ` set sets \<Longrightarrow> map doc_id (snd (updateOne q sets ds)) = map doc_id ds"
  by (induction ds) (simp_all add: doc_id_apply_set)

lemma deleteOne_subset: "set (snd (deleteOne q ds)) \<subseteq> set ds"
  by (induction ds) auto

lemma deleteOne_distinct:
  "distinct (map g ds) \<Longrightarrow> distinct (map g (snd (deleteOne q ds)))"
proof (induction ds)
  case Nil
  then show ?case by simp
next
  case (Cons d ds)
  have "g d \<notin> g ` set (snd (deleteOne q ds))"
    using Cons.prems deleteOne_subset[of q ds] by auto
  with Cons show ?case by simp
qed

lemma find_by_id_iff:
  "unique_ids ds \<Longrightarrow>
   (List.find (\<lambda>d. doc_id d = Some i) ds = Some p) = (p \<in> set ds \<and> doc_id p = Some i)"
proof (induction ds)
  case Nil
  then show ?case by simp
next
  case (Cons d ds)
  from Cons.prems have nd: "doc_id d \<notin> doc_id ` set ds" and ud: "unique_ids ds"
    by (simp_all add: unique_ids_def)
  from Cons.IH[OF ud] have ih: "(List.find (\<lambda>d. doc_id d = Some i) ds = Some p) =
                 (p \<in> set ds \<and> doc_id p = Some i)" .
  from nd have fresh: "\<forall>x \<in> set ds. doc_id x \<noteq> doc_id d"
    by (metis imageI)
  show ?case
  proof (cases "doc_id d = Some i")
    case True
    with fresh have "\<forall>x \<in> set ds. doc_id x \<noteq> Some i" by simp
    with True show ?thesis by auto
  next
    case False
    with ih show ?thesis by auto
  qed
qed

lemma find_snoc_old: "List.find P ds = Some p \<Longrightarrow> List.find P (ds @ [x]) = Some p"
  by (induction ds) (auto split: if_splits)

lemma insertOne_unique:
  "insertOne d gen ds = Inr r \<Longrightarrow> unique_ids ds \<Longrightarrow> unique_ids (snd r)"
  by (auto simp: insertOne_cases Let_def unique_ids_def doc_id_def split: if_splits)

lemma insertOne_find_old:
  "insertOne d gen ds = Inr r \<Longrightarrow> List.find P ds = Some p \<Longrightarrow> List.find P (snd r) = Some p"
  by (auto simp: insertOne_cases Let_def find_snoc_old split: if_splits)

text \<open>What each handler does to the parcels.\<close>

lemma tracking_store: "snd (tracking now gen gen_id body s) = s"
  by (simp add: tracking_def Let_def bindings_def split: sum.splits)

lemma upsertUser_parcels: "parcelCollection (snd (upsertUser now gen body s)) = parcelCollection s"
  by (simp add: upsertUser_def split: option.splits sum.splits)

lemma setUserRole_parcels: "parcelCollection (snd (setUserRole ident role s)) = parcelCollection s"
  by (simp add: setUserRole_def Let_def split: sum.splits)

lemma applyAsRider_parcels: "parcelCollection (snd (applyAsRider gen body s)) = parcelCollection s"
  by (simp add: applyAsRider_def split: sum.splits)

lemma setRiderStatus_parcels:
  "parcelCollection (snd (setRiderStatus now ident status s)) = parcelCollection s"
  by (simp add: setRiderStatus_def Let_def split: sum.splits)

lemma approveOrRejectRider_parcels:
  "parcelCollection (snd (approveOrRejectRider ident status s)) = parcelCollection s"
  by (simp add: approveOrRejectRider_def Let_def split: sum.splits option.splits)

lemma patch_riders_id_status_parcels:
  "parcelCollection (snd (patch_riders_id_status v auth ident status s)) = parcelCollection s"
  by (simp add: patch_riders_id_status_def approveOrRejectRider_parcels
        split: sum.splits option.splits)

lemma rejectRider_parcels: "parcelCollection (snd (rejectRider ident s)) = parcelCollection s"
  by (simp add: rejectRider_def Let_def split: sum.splits)

lemma createParcel_parcels:
  "parcelCollection (snd (createParcel gen body s)) = parcelCollection s \<or>
   (\<exists>r. insertOne body gen (parcelCollection s) = Inr r \<and>
        parcelCollection (snd (createParcel gen body s)) = snd r)"
  by (simp add: createParcel_def split: sum.splits)

lemma deleteParcel_parcels:
  "parcelCollection (snd (deleteParcel ident s)) = parcelCollection s \<or>
   (\<exists>q. parcelCollection (snd (deleteParcel ident s)) = snd (deleteOne q (parcelCollection s)))"
  by (auto simp: deleteParcel_def Let_def split: sum.splits)

lemma assignRider_parcels:
  "parcelCollection (snd (assignRider now gen1 gen2 body s)) = parcelCollection s \<or>
   (\<exists>q a b. parcelCollection (snd (assignRider now gen1 gen2 body s)) =
      snd (updateOne q [(''delivery_status'', JStr ''in_transit''), (''assigned_rider'', a),
                        (''assigned_at'', b)] (parcelCollection s)))"
  by (auto simp: assignRider_def Let_def split: sum.splits)

lemma recordPayment_parcels:
  "parcelCollection (snd (recordPayment f now1 now2 gen gen_id body s)) =
     (case ObjectId_new gen (map_of body ''parcelId'') of
        Inl e \<Rightarrow> parcelCollection s
      | Inr oid \<Rightarrow> snd (updateOne [(''_id'', JOid oid)] [(''payment_status'', JStr ''paid'')]
                         (parcelCollection s)))"
  by (simp add: recordPayment_def Let_def split: sum.splits)

lemma recordPayment_created:
  assumes "ObjectId_new gen (map_of body ''parcelId'') = Inr oid"
    and "modifiedCount (fst (updateOne [(''_id'', JOid oid)] [(''payment_status'', JStr ''paid'')]
                               (parcelCollection s))) \<noteq> 0"
    and "Some (JOid gen_id) \<notin> set (map doc_id (paymentsCollection s))"
  shows "fst (recordPayment f now1 now2 gen gen_id body s) =
           Sent 201 (PaymentRecorded (JOid gen_id)) \<and>
         paymentsCollection (snd (recordPayment f now1 now2 gen gen_id body s)) =
           paymentsCollection s @ [(''_id'', JOid gen_id) # paymentDoc f now1 now2 body]"
proof -
  have "insertOne (paymentDoc f now1 now2 body) gen_id (paymentsCollection s) =
        Inr (JOid gen_id,
             paymentsCollection s @ [(''_id'', JOid gen_id) # paymentDoc f now1 now2 body])"
    using insertOne_generated[OF doc_id_paymentDoc, of gen_id "paymentsCollection s" f now1 now2 body]
      assms(3)
    by (simp add: filter_id_paymentDoc)
  with assms(1,2) show ?thesis by (simp add: recordPayment_def Let_def)
qed

lemma recordPayment_refused:
  assumes o: "ObjectId_new gen (map_of body ''parcelId'') = Inr oid"
    and p: "parcel_of (JOid oid) s = None \<or> (\<exists>p. parcel_of (JOid oid) s = Some p \<and> paid p)"
  shows "recordPayment f now1 now2 gen gen_id body s =
           (Sent 404 (Message ''Parcel not found or already paid''), s)"
proof -
  let ?q = "[(''_id'', JOid oid)]"
  let ?sets = "[(''payment_status'', JStr ''paid'')]"
  let ?u = "updateOne ?q ?sets (parcelCollection s)"
  note eff = updateOne_effect[of ?q ?sets "parcelCollection s"]
  have z: "modifiedCount (fst ?u) = 0"
  proof (cases "findOne ?q (parcelCollection s)")
    case None
    with eff show ?thesis by simp
  next
    case (Some d)
    with p have "paid d" by (simp add: parcel_of_findOne)
    then have "apply_set ?sets d = d" by (simp only: paid_noop)
    moreover from eff Some have "fst ?u = \<lparr>matchedCount = 1,
        modifiedCount = (if apply_set ?sets d = d then 0 else 1)\<rparr>" by simp
    ultimately show ?thesis by simp
  qed
  then have "snd ?u = parcelCollection s" by (rule updateOne_unmodified)
  with z o show ?thesis by (simp add: recordPayment_def Let_def)
qed

lemma handle_unique_ids:
  assumes u: "unique_ids (parcelCollection s)"
  shows "unique_ids (parcelCollection (snd (handle v f r s)))"
proof (cases r)
  case (PostParcels gen body)
  from createParcel_parcels[of gen body s] u show ?thesis
    by (auto simp: PostParcels dest: insertOne_unique)
next
  case (DeleteParcels ident)
  from deleteParcel_parcels[of ident s] u show ?thesis
    by (auto simp: DeleteParcels unique_ids_def deleteOne_distinct)
next
  case (PostParcelsAssign now gen1 gen2 body)
  from assignRider_parcels[of now gen1 gen2 body s] u show ?thesis
    by (auto simp: PostParcelsAssign unique_ids_def updateOne_ids)
next
  case (PostPayments now1 now2 gen gen_id body)
  from u show ?thesis
    by (simp add: PostPayments recordPayment_parcels unique_ids_def updateOne_ids
          split: sum.splits)
qed (simp_all add: u upsertUser_parcels setUserRole_parcels applyAsRider_parcels
       setRiderStatus_parcels patch_riders_id_status_parcels rejectRider_parcels tracking_store)

lemma reachable_unique_ids: "reachable v f s \<Longrightarrow> unique_ids (parcelCollection s)"
  by (induction rule: reachable.induct) (simp_all add: handle_unique_ids)

lemma handle_parcel_step:
  assumes u: "unique_ids (parcelCollection s)"
    and old: "parcel_of i s = Some p"
    and new: "parcel_of i (snd (handle v f r s)) = Some p'"
  shows "paid p' = paid p \<or>
         (\<exists>now1 now2 gen gen_id body oid.
            r = PostPayments now1 now2 gen gen_id body \<and>
            ObjectId_new gen (map_of body ''parcelId'') = Inr oid \<and> i = JOid oid \<and> paid p' \<and>
            (Some (JOid gen_id) \<notin> set (map doc_id (paymentsCollection s)) \<longrightarrow>
               fst (handle v f r s) = Sent 201 (PaymentRecorded (JOid gen_id)) \<and>
               paymentsCollection (snd (handle v f r s)) =
                 paymentsCollection s @ [(''_id'', JOid gen_id) # paymentDoc f now1 now2 body]))"
proof (cases r)
  case (PostParcels gen body)
  from createParcel_parcels[of gen body s] old have
    "parcel_of i (snd (handle v f r s)) = Some p"
    by (auto simp: PostParcels parcel_of_def dest: insertOne_find_old)
  with new show ?thesis by simp
next
  case (DeleteParcels ident)
  from deleteParcel_parcels[of ident s] have "p' = p"
  proof
    assume "parcelCollection (snd (deleteParcel ident s)) = parcelCollection s"
    with old new show ?thesis by (simp add: DeleteParcels parcel_of_def)
  next
    assume "\<exists>q. parcelCollection (snd (deleteParcel ident s)) =
                snd (deleteOne q (parcelCollection s))"
    then obtain q where q: "parcelCollection (snd (deleteParcel ident s)) =
                snd (deleteOne q (parcelCollection s))" by blast
    from u have u': "unique_ids (snd (deleteOne q (parcelCollection s)))"
      by (simp add: unique_ids_def deleteOne_distinct)
    from new q have "List.find (\<lambda>d. doc_id d = Some i) (snd (deleteOne q (parcelCollection s))) =
        Some p'" by (simp add: DeleteParcels parcel_of_def)
    with u' have "p' \<in> set (snd (deleteOne q (parcelCollection s))) \<and> doc_id p' = Some i"
      by (simp add: find_by_id_iff)
    with deleteOne_subset[of q "parcelCollection s"]
    have "p' \<in> set (parcelCollection s) \<and> doc_id p' = Some i" by auto
    with u have "List.find (\<lambda>d. doc_id d = Some i) (parcelCollection s) = Some p'"
      by (simp add: find_by_id_iff)
    with old show ?thesis by (simp add: parcel_of_def)
  qed
  then show ?thesis by simp
next
  case (PostParcelsAssign now gen1 gen2 body)
  from assignRider_parcels[of now gen1 gen2 body s] have "paid p' = paid p"
  proof
    assume "parcelCollection (snd (assignRider now gen1 gen2 body s)) = parcelCollection s"
    with old new show ?thesis by (simp add: PostParcelsAssign parcel_of_def)
  next
    assume "\<exists>q a b. parcelCollection (snd (assignRider now gen1 gen2 body s)) =
      snd (updateOne q [(''delivery_status'', JStr ''in_transit''), (''assigned_rider'', a),
                        (''assigned_at'', b)] (parcelCollection s))"
    then obtain q a b where q: "parcelCollection (snd (assignRider now gen1 gen2 body s)) =
      snd (updateOne q [(''delivery_status'', JStr ''in_transit''), (''assigned_rider'', a),
                        (''assigned_at'', b)] (parcelCollection s))" by blast
    let ?sets = "[(''delivery_status'', JStr ''in_transit''), (''assigned_rider'', a),
                  (''assigned_at'', b)]"
    have k: "''_id'' \<notin> fst ` set ?sets" by simp
    from updateOne_find_id[OF k, of i "parcelCollection s" p q p'] old new q
    have "p' = p \<or> p' = apply_set ?sets p"
      by (auto simp: PostParcelsAssign parcel_of_def)
    then show ?thesis by (auto simp: paid_def map_of_set_field)
  qed
  then show ?thesis by simp
next
  case (PostPayments now1 now2 gen gen_id body)
  show ?thesis
  proof (cases "ObjectId_new gen (map_of body ''parcelId'')")
    case (Inl e)
    with old new have "p' = p"
      by (simp add: PostPayments recordPayment_parcels parcel_of_def)
    then show ?thesis by simp
  next
    case (Inr oid)
    let ?q = "[(''_id'', JOid oid)]"
    let ?sets = "[(''payment_status'', JStr ''paid'')]"
    have k: "''_id'' \<notin> fst ` set ?sets" by simp
    from new Inr have new': "List.find (\<lambda>d. doc_id d = Some i)
        (snd (updateOne ?q ?sets (parcelCollection s))) = Some p'"
      by (simp add: PostPayments recordPayment_parcels parcel_of_def)
    from updateOne_find_id[OF k, of i "parcelCollection s" p ?q p'] old new'
    have alt: "p' = p \<or> (findOne ?q (parcelCollection s) = Some p \<and> p' = apply_set ?sets p)"
      by (simp add: parcel_of_def)
    show ?thesis
    proof (cases "paid p' = paid p")
      case True
      then show ?thesis by simp
    next
      case False
      with alt have fp: "findOne ?q (parcelCollection s) = Some p"
        and p': "p' = apply_set ?sets p" by auto
      from p' have pd: "paid p'" by (simp add: paid_def map_of_set_field)
      from False p' have ne: "apply_set ?sets p \<noteq> p" by auto
      from fp have "matches ?q p" by (auto simp: findOne_def find_Some_iff)
      then have "doc_id p = Some (JOid oid)" by (simp add: matches_id)
      moreover from old have "doc_id p = Some i"
        by (auto simp: parcel_of_def find_Some_iff)
      ultimately have i: "i = JOid oid" by simp
      from updateOne_effect[of ?q ?sets "parcelCollection s"] fp ne
      have m: "modifiedCount (fst (updateOne ?q ?sets (parcelCollection s))) \<noteq> 0"
        by simp
      have "Some (JOid gen_id) \<notin> set (map doc_id (paymentsCollection s)) \<longrightarrow>
               fst (handle v f r s) = Sent 201 (PaymentRecorded (JOid gen_id)) \<and>
               paymentsCollection (snd (handle v f r s)) =
                 paymentsCollection s @ [(''_id'', JOid gen_id) # paymentDoc f now1 now2 body]"
        using recordPayment_created[OF Inr m, of gen_id f now1 now2]
        by (simp add: PostPayments)
      with PostPayments Inr i pd show ?thesis by blast
    qed
  qed
qed (use old new in \<open>simp_all add: parcel_of_def upsertUser_parcels setUserRole_parcels
       applyAsRider_parcels setRiderStatus_parcels patch_riders_id_status_parcels
       rejectRider_parcels tracking_store\<close>)

lemma recordPayment_paid_after:
  assumes o: "ObjectId_new gen (map_of body ''parcelId'') = Inr oid"
    and ok: "fst (recordPayment f now1 now2 gen gen_id body s) = Sent 201 x"
  shows "\<exists>p'. parcel_of (JOid oid) (snd (recordPayment f now1 now2 gen gen_id body s)) = Some p' \<and>
              paid p'"
proof -
  let ?q = "[(''_id'', JOid oid)]"
  let ?sets = "[(''payment_status'', JStr ''paid'')]"
  let ?u = "updateOne ?q ?sets (parcelCollection s)"
  note eff = updateOne_effect[of ?q ?sets "parcelCollection s"]
  from o ok have m: "modifiedCount (fst ?u) \<noteq> 0"
    by (auto simp: recordPayment_def Let_def split: if_splits sum.splits)
  with eff obtain p where fp: "findOne ?q (parcelCollection s) = Some p"
    by (cases "findOne ?q (parcelCollection s)") auto
  with eff have fu: "findOne ?q (snd ?u) = Some (apply_set ?sets p)" by simp
  have "parcelCollection (snd (recordPayment f now1 now2 gen gen_id body s)) = snd ?u"
    using o by (simp add: recordPayment_parcels)
  with fu have "parcel_of (JOid oid) (snd (recordPayment f now1 now2 gen gen_id body s)) =
               Some (apply_set ?sets p)"
    by (simp only: parcel_of_findOne)
  moreover have "paid (apply_set ?sets p)" by (simp add: paid_def map_of_set_field)
  ultimately show ?thesis by blast
qed

section \<open>Recording a payment (C1)\<close>

text \<open>
  Claim C1, as amended. \<^verbatim>\<open>POST /payments\<close>: when \<^verbatim>\<open>parcelId\<close> is not acceptable to
  the ObjectId constructor the answer is 500 and nothing changes. Otherwise the handler
  first sets \<^verbatim>\<open>payment_status = "paid"\<close> on the parcel with that identifier. That
  update modifies no document exactly when no parcel has the identifier or the parcel is
  already paid; then the answer is 404 and the store, the payments included, is unchanged.
  When it modifies the parcel (and the identifier the driver generates for the payment is
  unused), the answer is 201 with that identifier, exactly one document is appended to
  the payments, holding \<^verbatim>\<open>paid_at\<close> (the second clock reading) and
  \<^verbatim>\<open>paid_at_string\<close> (the ISO rendering of the clock reading just before it), and the
  parcel is paid.
\<close>

theorem recordPayment_cases:
  assumes P: "map_of body ''parcelId'' = P"
  shows
   "(ObjectId_new gen P = Inl BSONError \<longrightarrow>
       recordPayment toISOString now1 now2 gen gen_id body s =
         (Sent 500 (Message ''Failed to record payment''), s)) \<and>
    (\<forall>oid. ObjectId_new gen P = Inr oid \<longrightarrow>
       (modifiedCount (fst (updateOne [(''_id'', JOid oid)] [(''payment_status'', JStr ''paid'')]
                              (parcelCollection s))) = 0) =
         (case findOne [(''_id'', JOid oid)] (parcelCollection s) of
            None \<Rightarrow> True | Some p \<Rightarrow> paid p) \<and>
       (modifiedCount (fst (updateOne [(''_id'', JOid oid)] [(''payment_status'', JStr ''paid'')]
                              (parcelCollection s))) = 0 \<longrightarrow>
          recordPayment toISOString now1 now2 gen gen_id body s =
            (Sent 404 (Message ''Parcel not found or already paid''), s)) \<and>
       (modifiedCount (fst (updateOne [(''_id'', JOid oid)] [(''payment_status'', JStr ''paid'')]
                              (parcelCollection s))) \<noteq> 0 \<and>
        Some (JOid gen_id) \<notin> set (map doc_id (paymentsCollection s)) \<longrightarrow>
          (\<exists>s' p'.
             recordPayment toISOString now1 now2 gen gen_id body s =
               (Sent 201 (PaymentRecorded (JOid gen_id)), s') \<and>
             paymentsCollection s' =
               paymentsCollection s @
                 [(''_id'', JOid gen_id) # paymentDoc toISOString now1 now2 body] \<and>
             map_of (paymentDoc toISOString now1 now2 body) ''paid_at'' = Some (JDate now2) \<and>
             map_of (paymentDoc toISOString now1 now2 body) ''paid_at_string'' =
               Some (JStr (toISOString now1)) \<and>
             findOne [(''_id'', JOid oid)] (parcelCollection s') = Some p' \<and> paid p' \<and>
             usersCollection s' = usersCollection s \<and>
             ridersCollection s' = ridersCollection s)))"
proof (intro conjI impI allI)
  assume "ObjectId_new gen P = Inl BSONError"
  then show "recordPayment toISOString now1 now2 gen gen_id body s =
         (Sent 500 (Message ''Failed to record payment''), s)"
    using P by (simp add: recordPayment_def)
next
  fix oid
  let ?q = "[(''_id'', JOid oid)]"
  let ?sets = "[(''payment_status'', JStr ''paid'')]"
  let ?u = "updateOne ?q ?sets (parcelCollection s)"
  note eff = updateOne_effect[of ?q ?sets "parcelCollection s"]
  show gate: "(modifiedCount (fst ?u) = 0) =
         (case findOne ?q (parcelCollection s) of None \<Rightarrow> True | Some p \<Rightarrow> paid p)"
  proof (cases "findOne ?q (parcelCollection s)")
    case None
    with eff show ?thesis by simp
  next
    case (Some p)
    with eff have "fst ?u = \<lparr>matchedCount = 1,
        modifiedCount = (if apply_set ?sets p = p then 0 else 1)\<rparr>" by simp
    with Some show ?thesis by (simp add: paid_noop del: apply_set.simps)
  qed
  assume o: "ObjectId_new gen P = Inr oid"
  {
    assume z: "modifiedCount (fst ?u) = 0"
    then have "snd ?u = parcelCollection s" by (rule updateOne_unmodified)
    with z o P show "recordPayment toISOString now1 now2 gen gen_id body s =
            (Sent 404 (Message ''Parcel not found or already paid''), s)"
      by (simp add: recordPayment_def Let_def)
  }
  {
    assume nz: "modifiedCount (fst ?u) \<noteq> 0 \<and>
        Some (JOid gen_id) \<notin> set (map doc_id (paymentsCollection s))"
    let ?doc = "paymentDoc toISOString now1 now2 body"
    let ?s' = "s\<lparr>parcelCollection := snd ?u,
                 paymentsCollection := paymentsCollection s @ [(''_id'', JOid gen_id) # ?doc]\<rparr>"
    from nz have ins: "insertOne ?doc gen_id (paymentsCollection s) =
        Inr (JOid gen_id, paymentsCollection s @ [(''_id'', JOid gen_id) # ?doc])"
      using insertOne_generated[OF doc_id_paymentDoc, of gen_id "paymentsCollection s"
          toISOString now1 now2 body]
      by (simp add: filter_id_paymentDoc)
    have run: "recordPayment toISOString now1 now2 gen gen_id body s =
               (Sent 201 (PaymentRecorded (JOid gen_id)), ?s')"
      using nz o P ins by (simp add: recordPayment_def Let_def)
    from nz gate obtain p where f: "findOne ?q (parcelCollection s) = Some p"
      by (cases "findOne ?q (parcelCollection s)") auto
    with eff have f': "findOne ?q (snd ?u) = Some (apply_set ?sets p)" by simp
    have pd: "paid (apply_set ?sets p)"
      by (simp add: paid_def map_of_set_field)
    show "\<exists>s' p'.
             recordPayment toISOString now1 now2 gen gen_id body s =
               (Sent 201 (PaymentRecorded (JOid gen_id)), s') \<and>
             paymentsCollection s' =
               paymentsCollection s @
                 [(''_id'', JOid gen_id) # paymentDoc toISOString now1 now2 body] \<and>
             map_of (paymentDoc toISOString now1 now2 body) ''paid_at'' = Some (JDate now2) \<and>
             map_of (paymentDoc toISOString now1 now2 body) ''paid_at_string'' =
               Some (JStr (toISOString now1)) \<and>
             findOne [(''_id'', JOid oid)] (parcelCollection s') = Some p' \<and> paid p' \<and>
             usersCollection s' = usersCollection s \<and>
             ridersCollection s' = ridersCollection s"
      apply (rule exI[of _ ?s'])
      apply (rule exI[of _ "apply_set ?sets p"])
      apply (intro conjI)
      subgoal by (rule run)
      subgoal by simp
      subgoal by (simp add: paymentDoc_def)
      subgoal by (simp add: paymentDoc_def)
      subgoal using f' by simp
      subgoal by (rule pd)
      subgoal by simp
      subgoal by simp
      done
  }
qed

text \<open>
  Claim C1 as stated fails: with \<^verbatim>\<open>parcelId = "abc"\<close> no document is modified, yet the
  answer is not the 404 of a missing or paid parcel but 500.
\<close>

theorem recordPayment_malformed_id_counterexample:
  "recordPayment ex_toISOString 0 1 ''0000000000000000000000f1'' ''0000000000000000000000d9''
     [(''parcelId'', JStr ''abc''), (''email'', JStr ''r@example.com''), (''amount'', JNum 50)]
     ex_store = (Sent 500 (Message ''Failed to record payment''), ex_store)"
  by (simp add: recordPayment_def eval_oid)

text \<open>
  The amended C1 at work: paying the unpaid parcel appends a fourth payment, paying the
  paid parcel is answered 404 and changes nothing.
\<close>

theorem recordPayment_cases_witness:
  "(\<exists>s'. recordPayment ex_toISOString 0 1 ''0000000000000000000000f1''
            ''0000000000000000000000d9''
            [(''parcelId'', JStr ''0000000000000000000000b1''),
             (''email'', JStr ''r@example.com''), (''amount'', JNum 50)] ex_store =
            (Sent 201 (PaymentRecorded (JOid ''0000000000000000000000d9'')), s') \<and>
          length (paymentsCollection s') = 4) \<and>
   recordPayment ex_toISOString 0 1 ''0000000000000000000000f1'' ''0000000000000000000000d9''
     [(''parcelId'', JStr ''0000000000000000000000b2''),
      (''email'', JStr ''r@example.com''), (''amount'', JNum 50)] ex_store =
     (Sent 404 (Message ''Parcel not found or already paid''), ex_store)"
proof -
  let ?b1 = "[(''parcelId'', JStr ''0000000000000000000000b1''),
              (''email'', JStr ''r@example.com''), (''amount'', JNum 50)]"
  let ?b2 = "[(''parcelId'', JStr ''0000000000000000000000b2''),
              (''email'', JStr ''r@example.com''), (''amount'', JNum 50)]"
  have o1: "ObjectId_new g (Some (JStr ''0000000000000000000000b1'')) =
              Inr ''0000000000000000000000b1''" for g
    by (simp add: eval_oid)
  have o2: "ObjectId_new g (Some (JStr ''0000000000000000000000b2'')) =
              Inr ''0000000000000000000000b2''" for g
    by (simp add: eval_oid)
  have f1: "findOne [(''_id'', JOid ''0000000000000000000000b1'')] (parcelCollection ex_store) =
              Some ex_parcel_unpaid"
    by (simp add: ex_store_def ex_docs eval_query)
  have f2: "findOne [(''_id'', JOid ''0000000000000000000000b2'')] (parcelCollection ex_store) =
              Some ex_parcel_paid"
    by (simp add: ex_store_def ex_docs eval_query)
  have p1: "\<not> paid ex_parcel_unpaid" by (simp add: paid_def ex_parcel_unpaid_def)
  have p2: "paid ex_parcel_paid" by (simp add: paid_def ex_parcel_paid_def)
  have fresh: "Some (JOid ''0000000000000000000000d9'') \<notin>
                 set (map doc_id (paymentsCollection ex_store))"
    by (simp add: ex_store_def ex_docs doc_id_def)
  have len: "length (paymentsCollection ex_store) = 3" by (simp add: ex_store_def)
  note a = recordPayment_cases[where body = ?b1 and P = "Some (JStr ''0000000000000000000000b1'')"
      and gen = "''0000000000000000000000f1''" and gen_id = "''0000000000000000000000d9''"
      and toISOString = ex_toISOString and ?now1.0 = 0 and ?now2.0 = 1 and s = ex_store]
  note b = recordPayment_cases[where body = ?b2 and P = "Some (JStr ''0000000000000000000000b2'')"
      and gen = "''0000000000000000000000f1''" and gen_id = "''0000000000000000000000d9''"
      and toISOString = ex_toISOString and ?now1.0 = 0 and ?now2.0 = 1 and s = ex_store]
  have A: "\<exists>s'. recordPayment ex_toISOString 0 1 ''0000000000000000000000f1''
            ''0000000000000000000000d9'' ?b1 ex_store =
            (Sent 201 (PaymentRecorded (JOid ''0000000000000000000000d9'')), s') \<and>
          length (paymentsCollection s') = 4"
    using a o1 f1 p1 fresh len by (simp only: ) (auto 0 3)
  have B: "recordPayment ex_toISOString 0 1 ''0000000000000000000000f1''
            ''0000000000000000000000d9'' ?b2 ex_store =
            (Sent 404 (Message ''Parcel not found or already paid''), ex_store)"
    using b o2 f2 p2 by simp
  from A B show ?thesis by (rule conjI)
qed

section \<open>A parcel is paid once, by a recorded payment (C2)\<close>

text \<open>
  Claim C2. In every reachable state and for every request that can write:
  \<^item> a stored parcel that is not paid before the request and is paid after it was the
    target of a \<^verbatim>\<open>POST /payments\<close> request, which (the identifier the driver generates
    for the payment being unused) answered 201 and appended one payment document;
  \<^item> a parcel that is paid stays paid as long as it is stored, so it is never marked paid
    a second time;
  \<^item> \<^verbatim>\<open>POST /payments\<close> for a parcel that is missing or already paid is answered with the
    same 404 and changes nothing;
  \<^item> after a \<^verbatim>\<open>POST /payments\<close> answered 201, a second one for the same parcel is answered
    404 and changes nothing.
\<close>

theorem paid_only_by_recordPayment:
  assumes reach: "reachable v f s"
  shows
   "(\<forall>r i p p'.
       parcel_of i s = Some p \<and> \<not> paid p \<and>
       parcel_of i (snd (handle v f r s)) = Some p' \<and> paid p' \<longrightarrow>
       (\<exists>now1 now2 gen gen_id body oid.
          r = PostPayments now1 now2 gen gen_id body \<and>
          ObjectId_new gen (map_of body ''parcelId'') = Inr oid \<and> i = JOid oid \<and>
          (Some (JOid gen_id) \<notin> set (map doc_id (paymentsCollection s)) \<longrightarrow>
             fst (handle v f r s) = Sent 201 (PaymentRecorded (JOid gen_id)) \<and>
             paymentsCollection (snd (handle v f r s)) =
               paymentsCollection s @ [(''_id'', JOid gen_id) # paymentDoc f now1 now2 body]))) \<and>
    (\<forall>r i p p'.
       parcel_of i s = Some p \<and> paid p \<and> parcel_of i (snd (handle v f r s)) = Some p' \<longrightarrow>
       paid p') \<and>
    (\<forall>now1 now2 gen gen_id body oid.
       ObjectId_new gen (map_of body ''parcelId'') = Inr oid \<and>
       (parcel_of (JOid oid) s = None \<or> (\<exists>p. parcel_of (JOid oid) s = Some p \<and> paid p)) \<longrightarrow>
       handle v f (PostPayments now1 now2 gen gen_id body) s =
         (Sent 404 (Message ''Parcel not found or already paid''), s)) \<and>
    (\<forall>now1 now2 gen gen_id body x now1' now2' gen' gen_id' body' oid.
       ObjectId_new gen (map_of body ''parcelId'') = Inr oid \<and>
       ObjectId_new gen' (map_of body' ''parcelId'') = Inr oid \<and>
       fst (handle v f (PostPayments now1 now2 gen gen_id body) s) = Sent 201 x \<longrightarrow>
       handle v f (PostPayments now1' now2' gen' gen_id' body')
         (snd (handle v f (PostPayments now1 now2 gen gen_id body) s)) =
         (Sent 404 (Message ''Parcel not found or already paid''),
          snd (handle v f (PostPayments now1 now2 gen gen_id body) s)))"
proof (intro conjI allI impI)
  from reach have u: "unique_ids (parcelCollection s)" by (rule reachable_unique_ids)
  {
    fix r i p p'
    assume a: "parcel_of i s = Some p \<and> \<not> paid p \<and>
       parcel_of i (snd (handle v f r s)) = Some p' \<and> paid p'"
    then have "paid p' \<noteq> paid p" by simp
    with handle_parcel_step[OF u, of i p v f r p'] a
    show "\<exists>now1 now2 gen gen_id body oid.
          r = PostPayments now1 now2 gen gen_id body \<and>
          ObjectId_new gen (map_of body ''parcelId'') = Inr oid \<and> i = JOid oid \<and>
          (Some (JOid gen_id) \<notin> set (map doc_id (paymentsCollection s)) \<longrightarrow>
             fst (handle v f r s) = Sent 201 (PaymentRecorded (JOid gen_id)) \<and>
             paymentsCollection (snd (handle v f r s)) =
               paymentsCollection s @ [(''_id'', JOid gen_id) # paymentDoc f now1 now2 body])"
      by blast
  }
  {
    fix r i p p'
    assume a: "parcel_of i s = Some p \<and> paid p \<and> parcel_of i (snd (handle v f r s)) = Some p'"
    with handle_parcel_step[OF u, of i p v f r p'] show "paid p'" by blast
  }
  {
    fix now1 now2 gen gen_id body oid
    assume a: "ObjectId_new gen (map_of body ''parcelId'') = Inr oid \<and>
       (parcel_of (JOid oid) s = None \<or> (\<exists>p. parcel_of (JOid oid) s = Some p \<and> paid p))"
    then show "handle v f (PostPayments now1 now2 gen gen_id body) s =
         (Sent 404 (Message ''Parcel not found or already paid''), s)"
      using recordPayment_refused[of gen body oid s f now1 now2 gen_id] by simp
  }
  {
    fix now1 now2 gen gen_id body x now1' now2' gen' gen_id' body' oid
    assume a: "ObjectId_new gen (map_of body ''parcelId'') = Inr oid \<and>
       ObjectId_new gen' (map_of body' ''parcelId'') = Inr oid \<and>
       fst (handle v f (PostPayments now1 now2 gen gen_id body) s) = Sent 201 x"
    let ?s1 = "snd (recordPayment f now1 now2 gen gen_id body s)"
    from a recordPayment_paid_after[of gen body oid f now1 now2 gen_id s x]
    have "\<exists>p'. parcel_of (JOid oid) ?s1 = Some p' \<and> paid p'" by simp
    with a recordPayment_refused[of gen' body' oid ?s1 f now1' now2' gen_id']
    show "handle v f (PostPayments now1' now2' gen' gen_id' body')
         (snd (handle v f (PostPayments now1 now2 gen gen_id body) s)) =
         (Sent 404 (Message ''Parcel not found or already paid''),
          snd (handle v f (PostPayments now1 now2 gen gen_id body) s))"
      by simp
  }
qed

text \<open>
  C2 at work: the unpaid parcel is paid by a first request, and a second request for it
  (the identifier written in upper case) is refused.
\<close>

theorem paid_only_by_recordPayment_witness:
  "reachable ex_verifyIdToken ex_toISOString ex_store \<and>
   parcel_of (JOid ''0000000000000000000000b1'') ex_store = Some ex_parcel_unpaid \<and>
   \<not> paid ex_parcel_unpaid \<and>
   fst (handle ex_verifyIdToken ex_toISOString
          (PostPayments 0 1 ''0000000000000000000000f1'' ''0000000000000000000000d9''
             [(''parcelId'', JStr ''0000000000000000000000b1''), (''amount'', JNum 50)])
          ex_store) = Sent 201 (PaymentRecorded (JOid ''0000000000000000000000d9'')) \<and>
   handle ex_verifyIdToken ex_toISOString
     (PostPayments 2 3 ''0000000000000000000000f2'' ''0000000000000000000000da''
        [(''parcelId'', JStr ''0000000000000000000000B1''), (''amount'', JNum 50)])
     (snd (handle ex_verifyIdToken ex_toISOString
             (PostPayments 0 1 ''0000000000000000000000f1'' ''0000000000000000000000d9''
                [(''parcelId'', JStr ''0000000000000000000000b1''), (''amount'', JNum 50)])
             ex_store)) =
     (Sent 404 (Message ''Parcel not found or already paid''),
      snd (handle ex_verifyIdToken ex_toISOString
             (PostPayments 0 1 ''0000000000000000000000f1'' ''0000000000000000000000d9''
                [(''parcelId'', JStr ''0000000000000000000000b1''), (''amount'', JNum 50)])
             ex_store))"
proof -
  let ?r1 = "PostPayments 0 1 ''0000000000000000000000f1'' ''0000000000000000000000d9''
               [(''parcelId'', JStr ''0000000000000000000000b1''), (''amount'', JNum 50)]"
  let ?i = "JOid ''0000000000000000000000b1''"
  let ?s1 = "snd (handle ex_verifyIdToken ex_toISOString ?r1 ex_store)"
  have reach: "reachable ex_verifyIdToken ex_toISOString ex_store"
    by (rule reachable.start) (simp add: unique_ids_def ex_store_def ex_docs doc_id_def)
  note t = paid_only_by_recordPayment[OF reach]
  have old: "parcel_of ?i ex_store = Some ex_parcel_unpaid"
    by (simp add: parcel_of_def ex_store_def ex_docs doc_id_def)
  have unpaid: "\<not> paid ex_parcel_unpaid"
    by (simp add: paid_def ex_parcel_unpaid_def)
  have o1: "ObjectId_new g (Some (JStr ''0000000000000000000000b1'')) =
              Inr ''0000000000000000000000b1''" for g
    by (simp add: eval_oid)
  have o2: "ObjectId_new g (Some (JStr ''0000000000000000000000B1'')) =
              Inr ''0000000000000000000000b1''" for g
    by (simp add: eval_oid)
  have pc: "parcelCollection ?s1 =
      snd (updateOne [(''_id'', JOid ''0000000000000000000000b1'')]
             [(''payment_status'', JStr ''paid'')] (parcelCollection ex_store))"
    by (simp add: recordPayment_parcels eval_oid)
  have new: "parcel_of ?i ?s1 =
      Some (set_field ''payment_status'' (JStr ''paid'') ex_parcel_unpaid)"
    unfolding parcel_of_def pc
    by (simp add: ex_store_def ex_docs doc_id_def matches_def field_matches_def)
  have pd: "paid (set_field ''payment_status'' (JStr ''paid'') ex_parcel_unpaid)"
    by (simp add: paid_def map_of_set_field)
  have fresh: "Some (JOid ''0000000000000000000000d9'') \<notin>
                 set (map doc_id (paymentsCollection ex_store))"
    by (simp add: ex_store_def ex_docs doc_id_def)
  from t[THEN conjunct1, rule_format, of ?i ex_parcel_unpaid ?r1
      "set_field ''payment_status'' (JStr ''paid'') ex_parcel_unpaid"] old unpaid new pd fresh
  have ok: "fst (handle ex_verifyIdToken ex_toISOString ?r1 ex_store) =
              Sent 201 (PaymentRecorded (JOid ''0000000000000000000000d9''))"
    by auto
  from t[THEN conjunct2, THEN conjunct2, THEN conjunct2, rule_format,
      of "''0000000000000000000000f1''"
         "[(''parcelId'', JStr ''0000000000000000000000b1''), (''amount'', JNum 50)]"
         "''0000000000000000000000b1''" "''0000000000000000000000f2''"
         "[(''parcelId'', JStr ''0000000000000000000000B1''), (''amount'', JNum 50)]"
         0 1 "''0000000000000000000000d9''"
         "PaymentRecorded (JOid ''0000000000000000000000d9'')" 2 3
         "''0000000000000000000000da''"] o1 o2 ok
  have again: "handle ex_verifyIdToken ex_toISOString
     (PostPayments 2 3 ''0000000000000000000000f2'' ''0000000000000000000000da''
        [(''parcelId'', JStr ''0000000000000000000000B1''), (''amount'', JNum 50)]) ?s1 =
     (Sent 404 (Message ''Parcel not found or already paid''), ?s1)"
    by simp
  from reach old unpaid ok again show ?thesis by blast
qed

section \<open>Assigning a rider (C3)\<close>

text \<open>
  Claim C3, as amended. \<^verbatim>\<open>POST /parcels/assign\<close>: when \<^verbatim>\<open>parcelId\<close> or
  \<^verbatim>\<open>riderEmail\<close> is missing (or falsy) the answer is 400 and the store is unchanged.
  When both are given and \<^verbatim>\<open>parcelId\<close> is not acceptable to the ObjectId constructor,
  the answer is 500 and neither write is made. Otherwise the answer is 200 with the two
  modified counts, and the two writes are independent of each other: the parcel found
  under the identifier (if any) gets \<^verbatim>\<open>delivery_status = "in_transit"\<close>,
  \<^verbatim>\<open>assigned_rider = riderEmail\<close> and \<^verbatim>\<open>assigned_at\<close> (the truthy value provided, or
  else the current time); the first rider with that email (if any) gets
  \<^verbatim>\<open>work_status = "in_delivery"\<close> and \<^verbatim>\<open>current_parcel\<close>; each count is 0 when its
  document is missing or already holds the values, and 1 otherwise. Users and payments are
  unchanged.
\<close>

theorem assignRider_cases:
  assumes P: "map_of body ''parcelId'' = P"
    and E: "map_of body ''riderEmail'' = E"
    and A: "map_of body ''assignedAt'' = A"
  shows
   "(\<not> truthy P \<or> \<not> truthy E \<longrightarrow>
       assignRider now gen1 gen2 body s =
         (Sent 400 (Error ''parcelId and riderEmail are required''), s)) \<and>
    (truthy P \<and> truthy E \<longrightarrow>
       (ObjectId_new gen1 P = Inl BSONError \<longrightarrow>
          assignRider now gen1 gen2 body s = (Sent 500 (Error ''Internal server error''), s)) \<and>
       (\<forall>pid cur. ObjectId_new gen1 P = Inr pid \<and> ObjectId_new gen2 P = Inr cur \<longrightarrow>
          (\<exists>pm rm s'.
             assignRider now gen1 gen2 body s = (Sent 200 (Assigned pm rm), s') \<and>
             usersCollection s' = usersCollection s \<and>
             paymentsCollection s' = paymentsCollection s \<and>
             (findOne [(''_id'', JOid pid)] (parcelCollection s) = None \<longrightarrow>
                pm = 0 \<and> parcelCollection s' = parcelCollection s) \<and>
             (\<forall>p. findOne [(''_id'', JOid pid)] (parcelCollection s) = Some p \<longrightarrow>
                (\<exists>p'. findOne [(''_id'', JOid pid)] (parcelCollection s') = Some p' \<and>
                      map_of p' ''delivery_status'' = Some (JStr ''in_transit'') \<and>
                      map_of p' ''assigned_rider'' = E \<and>
                      map_of p' ''assigned_at'' =
                        (if truthy A then A else Some (JDate now)) \<and>
                      pm = (if p' = p then 0 else 1))) \<and>
             (findOne [(''email'', to_bson E)] (ridersCollection s) = None \<longrightarrow>
                rm = 0 \<and> ridersCollection s' = ridersCollection s) \<and>
             (\<forall>r. findOne [(''email'', to_bson E)] (ridersCollection s) = Some r \<longrightarrow>
                (\<exists>r'. findOne [(''email'', to_bson E)] (ridersCollection s') = Some r' \<and>
                      map_of r' ''work_status'' = Some (JStr ''in_delivery'') \<and>
                      map_of r' ''current_parcel'' = Some (JOid cur) \<and>
                      rm = (if r' = r then 0 else 1))))))"
proof (intro conjI impI allI)
  assume "\<not> truthy P \<or> \<not> truthy E"
  then show "assignRider now gen1 gen2 body s =
         (Sent 400 (Error ''parcelId and riderEmail are required''), s)"
    using P E by (auto simp: assignRider_def)
next
  assume "truthy P \<and> truthy E" "ObjectId_new gen1 P = Inl BSONError"
  then show "assignRider now gen1 gen2 body s = (Sent 500 (Error ''Internal server error''), s)"
    using P E by (auto simp: assignRider_def)
next
  fix pid cur
  assume t: "truthy P \<and> truthy E"
    and o: "ObjectId_new gen1 P = Inr pid \<and> ObjectId_new gen2 P = Inr cur"
  let ?pq = "[(''_id'', JOid pid)]"
  let ?at = "if truthy A then to_bson A else JDate now"
  let ?ps = "[(''delivery_status'', JStr ''in_transit''), (''assigned_rider'', to_bson E),
              (''assigned_at'', ?at)]"
  let ?rq = "[(''email'', to_bson E)]"
  let ?rs = "[(''work_status'', JStr ''in_delivery''), (''current_parcel'', JOid cur)]"
  let ?pu = "updateOne ?pq ?ps (parcelCollection s)"
  let ?ru = "updateOne ?rq ?rs (ridersCollection s)"
  let ?s' = "s\<lparr>parcelCollection := snd ?pu, ridersCollection := snd ?ru\<rparr>"
  from t have tE: "Some (to_bson E) = E" by (cases E) auto
  have tA: "truthy A \<Longrightarrow> Some (to_bson A) = A" by (cases A) auto
  have run: "assignRider now gen1 gen2 body s =
               (Sent 200 (Assigned (modifiedCount (fst ?pu)) (modifiedCount (fst ?ru))), ?s')"
    using P E A t o by (simp add: assignRider_def Let_def)
  note pe = updateOne_effect[of ?pq ?ps "parcelCollection s"]
  note re = updateOne_effect[of ?rq ?rs "ridersCollection s"]
  have p_none: "findOne ?pq (parcelCollection s) = None \<Longrightarrow>
                modifiedCount (fst ?pu) = 0 \<and> snd ?pu = parcelCollection s"
    using pe by simp
  have p_some: "\<exists>p'. findOne ?pq (snd ?pu) = Some p' \<and>
                      map_of p' ''delivery_status'' = Some (JStr ''in_transit'') \<and>
                      map_of p' ''assigned_rider'' = E \<and>
                      map_of p' ''assigned_at'' = (if truthy A then A else Some (JDate now)) \<and>
                      modifiedCount (fst ?pu) = (if p' = p then 0 else 1)"
    if "findOne ?pq (parcelCollection s) = Some p" for p
    using pe that tE tA
    by (intro exI[of _ "apply_set ?ps p"]) (simp add: map_of_set_field)
  have r_none: "findOne ?rq (ridersCollection s) = None \<Longrightarrow>
                modifiedCount (fst ?ru) = 0 \<and> snd ?ru = ridersCollection s"
    using re by simp
  have r_some: "\<exists>r'. findOne ?rq (snd ?ru) = Some r' \<and>
                      map_of r' ''work_status'' = Some (JStr ''in_delivery'') \<and>
                      map_of r' ''current_parcel'' = Some (JOid cur) \<and>
                      modifiedCount (fst ?ru) = (if r' = r then 0 else 1)"
    if "findOne ?rq (ridersCollection s) = Some r" for r
    using re that
    by (intro exI[of _ "apply_set ?rs r"]) (simp add: map_of_set_field)
  show "\<exists>pm rm s'.
             assignRider now gen1 gen2 body s = (Sent 200 (Assigned pm rm), s') \<and>
             usersCollection s' = usersCollection s \<and>
             paymentsCollection s' = paymentsCollection s \<and>
             (findOne [(''_id'', JOid pid)] (parcelCollection s) = None \<longrightarrow>
                pm = 0 \<and> parcelCollection s' = parcelCollection s) \<and>
             (\<forall>p. findOne [(''_id'', JOid pid)] (parcelCollection s) = Some p \<longrightarrow>
                (\<exists>p'. findOne [(''_id'', JOid pid)] (parcelCollection s') = Some p' \<and>
                      map_of p' ''delivery_status'' = Some (JStr ''in_transit'') \<and>
                      map_of p' ''assigned_rider'' = E \<and>
                      map_of p' ''assigned_at'' =
                        (if truthy A then A else Some (JDate now)) \<and>
                      pm = (if p' = p then 0 else 1))) \<and>
             (findOne [(''email'', to_bson E)] (ridersCollection s) = None \<longrightarrow>
                rm = 0 \<and> ridersCollection s' = ridersCollection s) \<and>
             (\<forall>r. findOne [(''email'', to_bson E)] (ridersCollection s) = Some r \<longrightarrow>
                (\<exists>r'. findOne [(''email'', to_bson E)] (ridersCollection s') = Some r' \<and>
                      map_of r' ''work_status'' = Some (JStr ''in_delivery'') \<and>
                      map_of r' ''current_parcel'' = Some (JOid cur) \<and>
                      rm = (if r' = r then 0 else 1)))"
    apply (rule exI[of _ "modifiedCount (fst ?pu)"])
    apply (rule exI[of _ "modifiedCount (fst ?ru)"])
    apply (rule exI[of _ ?s'])
    apply (intro conjI impI allI)
    subgoal by (rule run)
    subgoal by simp
    subgoal by simp
    subgoal using p_none by simp
    subgoal using p_none by simp
    subgoal for p using p_some[of p] by simp
    subgoal using r_none by simp
    subgoal using r_none by simp
    subgoal for r using r_some[of r] by simp
    done
qed

text \<open>
  Claim C3 as stated fails: with both fields present, \<^verbatim>\<open>parcelId = "abc"\<close> and an
  existing rider \<^verbatim>\<open>r@example.com\<close>, the handler answers 500 and the rider write is not
  attempted: the rider is still available.
\<close>

theorem assignRider_malformed_id_counterexample:
  "assignRider 500 ''0000000000000000000000f1'' ''0000000000000000000000f2''
     [(''parcelId'', JStr ''abc''), (''riderEmail'', JStr ''r@example.com'')] ex_store =
     (Sent 500 (Error ''Internal server error''), ex_store) \<and>
   findOne [(''email'', JStr ''r@example.com'')] (ridersCollection ex_store) =
     Some ex_rider_pending \<and>
   map_of ex_rider_pending ''work_status'' = Some (JStr ''available'')"
  by (simp add: assignRider_def eval_oid ex_store_def ex_docs eval_query)

text \<open>
  The amended C3 at work, on the scenario of the specification: a pending parcel and the
  rider \<^verbatim>\<open>r@example.com\<close>.
\<close>

theorem assignRider_cases_witness:
  "\<exists>s' p' r'.
     assignRider 500 ''0000000000000000000000f1'' ''0000000000000000000000f2''
       [(''parcelId'', JStr ''0000000000000000000000b1''),
        (''riderEmail'', JStr ''r@example.com'')] ex_store = (Sent 200 (Assigned 1 1), s') \<and>
     findOne [(''_id'', JOid ''0000000000000000000000b1'')] (parcelCollection s') = Some p' \<and>
     map_of p' ''delivery_status'' = Some (JStr ''in_transit'') \<and>
     map_of p' ''assigned_rider'' = Some (JStr ''r@example.com'') \<and>
     map_of p' ''assigned_at'' = Some (JDate 500) \<and>
     findOne [(''email'', JStr ''r@example.com'')] (ridersCollection s') = Some r' \<and>
     map_of r' ''work_status'' = Some (JStr ''in_delivery'') \<and>
     map_of r' ''current_parcel'' = Some (JOid ''0000000000000000000000b1'')"
proof -
  let ?body = "[(''parcelId'', JStr ''0000000000000000000000b1''),
                (''riderEmail'', JStr ''r@example.com'')]"
  have o: "ObjectId_new g (Some (JStr ''0000000000000000000000b1'')) =
             Inr ''0000000000000000000000b1''" for g
    by (simp add: eval_oid)
  have fp: "findOne [(''_id'', JOid ''0000000000000000000000b1'')] (parcelCollection ex_store) =
              Some ex_parcel_unpaid"
    by (simp add: ex_store_def ex_docs eval_query)
  have fr: "findOne [(''email'', JStr ''r@example.com'')] (ridersCollection ex_store) =
              Some ex_rider_pending"
    by (simp add: ex_store_def ex_docs eval_query)
  have np: "map_of ex_parcel_unpaid ''delivery_status'' \<noteq> Some (JStr ''in_transit'')"
    by (simp add: ex_parcel_unpaid_def)
  have nr: "map_of ex_rider_pending ''work_status'' \<noteq> Some (JStr ''in_delivery'')"
    by (simp add: ex_rider_pending_def)
  from assignRider_cases[where body = ?body and P = "Some (JStr ''0000000000000000000000b1'')"
      and E = "Some (JStr ''r@example.com'')" and A = None and now = 500
      and ?gen1.0 = "''0000000000000000000000f1''" and ?gen2.0 = "''0000000000000000000000f2''"
      and s = ex_store]
  show ?thesis
    using o fp fr np nr by (simp only: ) (auto 0 3)
qed

section \<open>Approving or rejecting a rider (C4)\<close>

text \<open>
  Claim C4. \<^verbatim>\<open>PATCH /riders/:id/status\<close>, for a request that passes the credential
  gate and the admin gate: a status other than \<^verbatim>\<open>"active"\<close> and \<^verbatim>\<open>"rejected"\<close> is
  answered with 400 and the store is unchanged. With the status \<^verbatim>\<open>"active"\<close> and a
  rider found under the identifier whose \<^verbatim>\<open>email\<close> is truthy, the answer is 200 with
  the result of the rider update alone, the rider is active, and the role of the first
  user with the rider's email is set to \<^verbatim>\<open>"rider"\<close>, so that \<^verbatim>\<open>GET /users/:email/role\<close>
  then answers \<^verbatim>\<open>"rider"\<close>. When no user has that email, the users are unchanged and the
  answer is the same 200: the failed cascade is not reported.
\<close>

theorem approveOrRejectRider_cascade:
  assumes gate: "verifyFBToken verifyIdToken authHeader = Inr d"
    and admin: "adminVerify d s = None"
  shows
   "(status \<noteq> Some (JStr ''active'') \<and> status \<noteq> Some (JStr ''rejected'') \<longrightarrow>
       patch_riders_id_status verifyIdToken authHeader ident status s =
         (Sent 400 (Error ''Invalid status value''), s)) \<and>
    (\<forall>oid rider ev.
       status = Some (JStr ''active'') \<and> ObjectId_fromString ident = Inr oid \<and>
       findOne [(''_id'', JOid oid)] (ridersCollection s) = Some rider \<and>
       map_of rider ''email'' = Some ev \<and> truthy (Some ev) \<longrightarrow>
       (\<exists>s' rider'.
          patch_riders_id_status verifyIdToken authHeader ident status s =
            (Sent 200 (UpdateResult
               \<lparr>matchedCount = 1,
                modifiedCount = (if map_of rider ''status'' = Some (JStr ''active'') then 0 else 1)\<rparr>),
             s') \<and>
          findOne [(''_id'', JOid oid)] (ridersCollection s') = Some rider' \<and>
          map_of rider' ''status'' = Some (JStr ''active'') \<and>
          map_of rider' ''email'' = Some ev \<and>
          (findOne [(''email'', ev)] (usersCollection s) = None \<longrightarrow>
             usersCollection s' = usersCollection s) \<and>
          (\<forall>u. findOne [(''email'', ev)] (usersCollection s) = Some u \<longrightarrow>
             (\<exists>u'. findOne [(''email'', ev)] (usersCollection s') = Some u' \<and>
                   map_of u' ''role'' = Some (JStr ''rider'') \<and>
                   (\<forall>e. ev = JStr e \<longrightarrow>
                      getUserRole e s' = Sent 200 (RoleOf (JStr ''rider'')))))))"
proof (intro conjI impI allI)
  assume "status \<noteq> Some (JStr ''active'') \<and> status \<noteq> Some (JStr ''rejected'')"
  then show "patch_riders_id_status verifyIdToken authHeader ident status s =
         (Sent 400 (Error ''Invalid status value''), s)"
    using gate admin by (simp add: patch_riders_id_status_def approveOrRejectRider_def)
next
  fix oid rider ev
  assume a: "status = Some (JStr ''active'') \<and> ObjectId_fromString ident = Inr oid \<and>
       findOne [(''_id'', JOid oid)] (ridersCollection s) = Some rider \<and>
       map_of rider ''email'' = Some ev \<and> truthy (Some ev)"
  let ?rq = "[(''_id'', JOid oid)]"
  let ?rsets = "[(''status'', JStr ''active'')]"
  let ?ru = "updateOne ?rq ?rsets (ridersCollection s)"
  let ?rider' = "apply_set ?rsets rider"
  let ?uq = "[(''email'', ev)]"
  let ?usets = "[(''role'', JStr ''rider'')]"
  let ?uu = "updateOne ?uq ?usets (usersCollection s)"
  let ?s' = "s\<lparr>ridersCollection := snd ?ru, usersCollection := snd ?uu\<rparr>"
  from a have st: "status = Some (JStr ''active'')"
    and o: "ObjectId_fromString ident = Inr oid"
    and f: "findOne ?rq (ridersCollection s) = Some rider"
    and em: "map_of rider ''email'' = Some ev" and tr: "truthy (Some ev)" by auto
  from tr have nn: "ev \<noteq> JNull" by auto
  note re = updateOne_effect[of ?rq ?rsets "ridersCollection s"]
  note ue = updateOne_effect[of ?uq ?usets "usersCollection s"]
  from re f have r1: "fst ?ru = \<lparr>matchedCount = 1,
        modifiedCount = (if ?rider' = rider then 0 else 1)\<rparr>"
    and r2: "findOne ?rq (snd ?ru) = Some ?rider'" by simp_all
  have same: "(?rider' = rider) = (map_of rider ''status'' = Some (JStr ''active''))"
    using set_field_noop[of rider "''status''" "JStr ''active''"]
      set_field_changed[of rider "''status''" "JStr ''active''"] by auto
  have em': "map_of ?rider' ''email'' = Some ev"
    using em by (simp add: map_of_set_field)
  have run: "patch_riders_id_status verifyIdToken authHeader ident status s =
            (Sent 200 (UpdateResult
               \<lparr>matchedCount = 1,
                modifiedCount = (if map_of rider ''status'' = Some (JStr ''active'') then 0 else 1)\<rparr>),
             ?s')"
    using gate admin st o r1 r2 same em' tr
    by (simp add: patch_riders_id_status_def approveOrRejectRider_def Let_def
             del: apply_set.simps)
  have u_none: "snd ?uu = usersCollection s" if "findOne ?uq (usersCollection s) = None"
    using ue that by simp
  have u_some: "\<exists>u'. findOne ?uq (usersCollection ?s') = Some u' \<and>
                   map_of u' ''role'' = Some (JStr ''rider'') \<and>
                   (\<forall>e. ev = JStr e \<longrightarrow>
                      getUserRole e ?s' = Sent 200 (RoleOf (JStr ''rider'')))"
    if fu: "findOne ?uq (usersCollection s) = Some u" for u
  proof -
    let ?u' = "apply_set ?usets u"
    from ue fu have f': "findOne ?uq (snd ?uu) = Some ?u'" by simp
    have role: "map_of ?u' ''role'' = Some (JStr ''rider'')"
      by (simp add: map_of_set_field)
    have "getUserRole e ?s' = Sent 200 (RoleOf (JStr ''rider''))" if "ev = JStr e" for e
      using that f' role tr by (simp add: getUserRole_def del: apply_set.simps)
    with f' role show ?thesis
      by (intro exI[of _ ?u']) (simp del: apply_set.simps)
  qed
  show "\<exists>s' rider'.
          patch_riders_id_status verifyIdToken authHeader ident status s =
            (Sent 200 (UpdateResult
               \<lparr>matchedCount = 1,
                modifiedCount = (if map_of rider ''status'' = Some (JStr ''active'') then 0 else 1)\<rparr>),
             s') \<and>
          findOne [(''_id'', JOid oid)] (ridersCollection s') = Some rider' \<and>
          map_of rider' ''status'' = Some (JStr ''active'') \<and>
          map_of rider' ''email'' = Some ev \<and>
          (findOne [(''email'', ev)] (usersCollection s) = None \<longrightarrow>
             usersCollection s' = usersCollection s) \<and>
          (\<forall>u. findOne [(''email'', ev)] (usersCollection s) = Some u \<longrightarrow>
             (\<exists>u'. findOne [(''email'', ev)] (usersCollection s') = Some u' \<and>
                   map_of u' ''role'' = Some (JStr ''rider'') \<and>
                   (\<forall>e. ev = JStr e \<longrightarrow>
                      getUserRole e s' = Sent 200 (RoleOf (JStr ''rider'')))))"
    apply (rule exI[of _ ?s'])
    apply (rule exI[of _ ?rider'])
    apply (intro conjI impI allI)
    subgoal by (rule run)
    subgoal using r2 by simp
    subgoal by (simp add: map_of_set_field)
    subgoal by (rule em')
    subgoal using u_none by simp
    subgoal for u using u_some[of u] by simp
    done
qed

text \<open>
  C4 at work: the administrator approves the rider \<^verbatim>\<open>r@example.com\<close>, whose user then
  has the role \<^verbatim>\<open>"rider"\<close>; approves a rider without a user, which changes no user and
  is answered alike; and is refused the status \<^verbatim>\<open>"on_hold"\<close>.
\<close>

theorem approveOrRejectRider_cascade_witness:
  "verifyFBToken ex_verifyIdToken (Some ''Bearer tok-admin'') =
     Inr \<lparr>email = Some ''admin@example.com''\<rparr> \<and>
   adminVerify \<lparr>email = Some ''admin@example.com''\<rparr> ex_store = None \<and>
   (\<exists>s'. patch_riders_id_status ex_verifyIdToken (Some ''Bearer tok-admin'')
            ''0000000000000000000000c1'' (Some (JStr ''active'')) ex_store =
            (Sent 200 (UpdateResult \<lparr>matchedCount = 1, modifiedCount = 1\<rparr>), s') \<and>
          getUserRole ''r@example.com'' s' = Sent 200 (RoleOf (JStr ''rider''))) \<and>
   (\<exists>s'. patch_riders_id_status ex_verifyIdToken (Some ''Bearer tok-admin'')
            ''0000000000000000000000c2'' (Some (JStr ''active'')) ex_store =
            (Sent 200 (UpdateResult \<lparr>matchedCount = 1, modifiedCount = 1\<rparr>), s') \<and>
          usersCollection s' = usersCollection ex_store) \<and>
   patch_riders_id_status ex_verifyIdToken (Some ''Bearer tok-admin'')
     ''0000000000000000000000c1'' (Some (JStr ''on_hold'')) ex_store =
     (Sent 400 (Error ''Invalid status value''), ex_store)"
proof -
  let ?d = "\<lparr>email = Some ''admin@example.com''\<rparr>"
  have g: "verifyFBToken ex_verifyIdToken (Some ''Bearer tok-admin'') = Inr ?d"
    by (simp add: verifyFBToken_def ex_verifyIdToken_def)
  have ad: "adminVerify ?d ex_store = None"
    by (simp add: adminVerify_def qparam_def ex_store_def ex_docs eval_query)
  have o1: "ObjectId_fromString ''0000000000000000000000c1'' = Inr ''0000000000000000000000c1''"
    by (simp add: eval_oid)
  have o2: "ObjectId_fromString ''0000000000000000000000c2'' = Inr ''0000000000000000000000c2''"
    by (simp add: eval_oid)
  have f1: "findOne [(''_id'', JOid ''0000000000000000000000c1'')] (ridersCollection ex_store) =
              Some ex_rider_pending"
    by (simp add: ex_store_def ex_docs eval_query)
  have f2: "findOne [(''_id'', JOid ''0000000000000000000000c2'')] (ridersCollection ex_store) =
              Some ex_rider_rejected"
    by (simp add: ex_store_def ex_docs eval_query)
  have e1: "map_of ex_rider_pending ''email'' = Some (JStr ''r@example.com'')"
    "map_of ex_rider_pending ''status'' \<noteq> Some (JStr ''active'')"
    by (simp_all add: ex_rider_pending_def)
  have e2: "map_of ex_rider_rejected ''email'' = Some (JStr ''q@example.com'')"
    "map_of ex_rider_rejected ''status'' \<noteq> Some (JStr ''active'')"
    by (simp_all add: ex_rider_rejected_def)
  have u1: "findOne [(''email'', JStr ''r@example.com'')] (usersCollection ex_store) = Some ex_user"
    by (simp add: ex_store_def ex_docs eval_query)
  have u2: "findOne [(''email'', JStr ''q@example.com'')] (usersCollection ex_store) = None"
    by (simp add: ex_store_def ex_docs eval_query)
  note a = approveOrRejectRider_cascade[OF g ad, where status = "Some (JStr ''active'')"
      and ident = "''0000000000000000000000c1''"]
  note b = approveOrRejectRider_cascade[OF g ad, where status = "Some (JStr ''active'')"
      and ident = "''0000000000000000000000c2''"]
  note c = approveOrRejectRider_cascade[OF g ad, where status = "Some (JStr ''on_hold'')"
      and ident = "''0000000000000000000000c1''"]
  have A: "\<exists>s'. patch_riders_id_status ex_verifyIdToken (Some ''Bearer tok-admin'')
            ''0000000000000000000000c1'' (Some (JStr ''active'')) ex_store =
            (Sent 200 (UpdateResult \<lparr>matchedCount = 1, modifiedCount = 1\<rparr>), s') \<and>
          getUserRole ''r@example.com'' s' = Sent 200 (RoleOf (JStr ''rider''))"
    using a o1 f1 e1 u1 by (simp only: ) (auto 0 3)
  have B: "\<exists>s'. patch_riders_id_status ex_verifyIdToken (Some ''Bearer tok-admin'')
            ''0000000000000000000000c2'' (Some (JStr ''active'')) ex_store =
            (Sent 200 (UpdateResult \<lparr>matchedCount = 1, modifiedCount = 1\<rparr>), s') \<and>
          usersCollection s' = usersCollection ex_store"
    using b o2 f2 e2 u2 by (simp only: ) (auto 0 3)
  have C: "patch_riders_id_status ex_verifyIdToken (Some ''Bearer tok-admin'')
     ''0000000000000000000000c1'' (Some (JStr ''on_hold'')) ex_store =
     (Sent 400 (Error ''Invalid status value''), ex_store)"
    using c by simp
  from g ad A B C show ?thesis by blast
qed

section \<open>The tracking route (C5)\<close>

text \<open>
  Claim C5, as amended. No binding named \<^verbatim>\<open>trackingCollection\<close> exists, and
  \<^verbatim>\<open>POST /tracking\<close> always ends with an exception, sends no response and leaves every
  collection as it was. The exception is the ReferenceError for the missing binding,
  except when \<^verbatim>\<open>parcel_id\<close> is truthy and not acceptable to the ObjectId constructor:
  then building the log raises a BSON error first.
\<close>

theorem tracking_always_raises:
  "map_of bindings ''trackingCollection'' = None \<and>
   tracking now gen gen_id body s =
     (Raised (if truthy (map_of body ''parcel_id'') \<and>
                 ObjectId_new gen (map_of body ''parcel_id'') = Inl BSONError
              then BSONError else ReferenceError), s)"
proof -
  have b: "map_of bindings ''trackingCollection'' = None"
    by (simp add: bindings_def)
  show ?thesis
    using b ObjectId_new_error[of gen "map_of body ''parcel_id''"]
    by (auto simp: tracking_def Let_def split: sum.splits)
qed

text \<open>
  Claim C5 as stated fails: with \<^verbatim>\<open>parcel_id = "abc"\<close> the exception raised is not a
  reference error but the BSON error of \<^verbatim>\<open>new ObjectId("abc")\<close>.
\<close>

theorem tracking_bson_error_counterexample:
  "tracking 0 ''0000000000000000000000f1'' ''0000000000000000000000f2''
     [(''tracking_id'', JStr ''T1''), (''parcel_id'', JStr ''abc''), (''status'', JStr ''picked'')]
     ex_store = (Raised BSONError, ex_store)"
  by (simp add: tracking_def eval_oid)

text \<open>
  The amended C5 at work: a well-formed tracking request ends with the ReferenceError.
\<close>

theorem tracking_always_raises_witness:
  "tracking 0 ''0000000000000000000000f1'' ''0000000000000000000000f2''
     [(''tracking_id'', JStr ''T1''), (''parcel_id'', JStr ''0000000000000000000000b1''),
      (''status'', JStr ''picked'')]
     ex_store = (Raised ReferenceError, ex_store)"
  using tracking_always_raises[where now = 0 and gen = "''0000000000000000000000f1''"
      and gen_id = "''0000000000000000000000f2''" and s = ex_store
      and body = "[(''tracking_id'', JStr ''T1''),
                   (''parcel_id'', JStr ''0000000000000000000000b1''),
                   (''status'', JStr ''picked'')]"]
  by (simp add: eval_oid)

section \<open>Creating a user once (C6)\<close>

text \<open>
  Claim C6, as amended. \<^verbatim>\<open>POST /users\<close>: when a user with the payload's email exists,
  the answer is "User already exists" and the store is unchanged. When none exists and the
  payload carries an \<^verbatim>\<open>_id\<close> that a stored user already has, the insert is rejected,
  the handler ends with the exception (there is no \<^verbatim>\<open>try\<close>) and nothing is stored.
  When none exists and the identifier is unused, the payload is appended with that
  identifier and the server's \<^verbatim>\<open>created_at\<close>, every other field as in the payload.
  Whenever the first call answers, a second call with the same email, whatever else it
  carries, answers "User already exists" and leaves the store as the first call left it.
\<close>

theorem upsertUser_idempotent:
  assumes E: "map_of body ''email'' = E"
    and I: "i = (if to_bson (map_of body ''_id'') = JNull then JOid gen
                 else to_bson (map_of body ''_id''))"
  shows
   "(\<forall>u. findOne [(''email'', to_bson E)] (usersCollection s) = Some u \<longrightarrow>
       upsertUser now gen body s = (Sent 200 (Message ''User already exists''), s)) \<and>
    (findOne [(''email'', to_bson E)] (usersCollection s) = None \<and>
     Some i \<in> set (map doc_id (usersCollection s)) \<longrightarrow>
       upsertUser now gen body s = (Raised DuplicateKey, s)) \<and>
    (findOne [(''email'', to_bson E)] (usersCollection s) = None \<and>
     Some i \<notin> set (map doc_id (usersCollection s)) \<longrightarrow>
       (\<exists>u. upsertUser now gen body s =
               (Sent 200 (InsertResult i), s\<lparr>usersCollection := usersCollection s @ [u]\<rparr>) \<and>
            doc_id u = Some i \<and>
            map_of u ''created_at'' = Some (JDate now) \<and>
            (\<forall>k. k \<noteq> ''_id'' \<and> k \<noteq> ''created_at'' \<longrightarrow> map_of u k = map_of body k))) \<and>
    (\<forall>now' gen' body'.
       map_of body' ''email'' = E \<and> (\<forall>e. fst (upsertUser now gen body s) \<noteq> Raised e) \<longrightarrow>
       upsertUser now' gen' body' (snd (upsertUser now gen body s)) =
         (Sent 200 (Message ''User already exists''), snd (upsertUser now gen body s)))"
proof -
  let ?q = "[(''email'', to_bson E)]"
  let ?user = "set_field ''created_at'' (JDate now) body"
  let ?u = "(''_id'', i) # filter (\<lambda>p. fst p \<noteq> ''_id'') ?user"
  have idu: "doc_id ?user = map_of body ''_id''"
    by (simp add: doc_id_def map_of_set_field)
  have ins: "insertOne ?user gen (usersCollection s) =
               (if Some i \<in> set (map doc_id (usersCollection s)) then Inl DuplicateKey
                else Inr (i, usersCollection s @ [?u]))"
    using I by (simp add: insertOne_cases[of ?user] idu Let_def)
  have exists: "upsertUser now gen body s = (Sent 200 (Message ''User already exists''), s)"
    if "findOne ?q (usersCollection s) = Some u" for u
    using that E by (simp add: upsertUser_def)
  have dup: "upsertUser now gen body s = (Raised DuplicateKey, s)"
    if "findOne ?q (usersCollection s) = None" "Some i \<in> set (map doc_id (usersCollection s))"
    using that E ins by (simp add: upsertUser_def)
  have new: "upsertUser now gen body s =
               (Sent 200 (InsertResult i), s\<lparr>usersCollection := usersCollection s @ [?u]\<rparr>)"
    if "findOne ?q (usersCollection s) = None" "Some i \<notin> set (map doc_id (usersCollection s))"
    using that E ins by (simp add: upsertUser_def)
  have again: "upsertUser now' gen' body' (snd (upsertUser now gen body s)) =
         (Sent 200 (Message ''User already exists''), snd (upsertUser now gen body s))"
    if b: "map_of body' ''email'' = E" and r: "\<forall>e. fst (upsertUser now gen body s) \<noteq> Raised e"
    for now' gen' body'
  proof (cases "findOne ?q (usersCollection s)")
    case (Some u)
    then show ?thesis using exists[OF Some] b by (simp add: upsertUser_def)
  next
    case None
    show ?thesis
    proof (cases "Some i \<in> set (map doc_id (usersCollection s))")
      case True
      with dup[OF None] r show ?thesis by simp
    next
      case False
      have "matches ?q ?u" using matches_email_inserted[of body i "JDate now"] E by simp
      then have "findOne ?q (usersCollection s @ [?u]) \<noteq> None" by (rule findOne_snoc_match)
      then show ?thesis using new[OF None False] b by (auto simp: upsertUser_def)
    qed
  qed
  show ?thesis
  proof (intro conjI impI allI)
    fix u assume "findOne ?q (usersCollection s) = Some u"
    then show "upsertUser now gen body s = (Sent 200 (Message ''User already exists''), s)"
      by (rule exists)
  next
    assume "findOne ?q (usersCollection s) = None \<and>
            Some i \<in> set (map doc_id (usersCollection s))"
    then show "upsertUser now gen body s = (Raised DuplicateKey, s)" using dup by simp
  next
    assume a: "findOne ?q (usersCollection s) = None \<and>
               Some i \<notin> set (map doc_id (usersCollection s))"
    show "\<exists>u. upsertUser now gen body s =
               (Sent 200 (InsertResult i), s\<lparr>usersCollection := usersCollection s @ [u]\<rparr>) \<and>
            doc_id u = Some i \<and>
            map_of u ''created_at'' = Some (JDate now) \<and>
            (\<forall>k. k \<noteq> ''_id'' \<and> k \<noteq> ''created_at'' \<longrightarrow> map_of u k = map_of body k)"
      using a new
      by (intro exI[of _ ?u]) (simp add: doc_id_def map_of_filter_id map_of_set_field)
  next
    fix now' gen' body'
    assume "map_of body' ''email'' = E \<and> (\<forall>e. fst (upsertUser now gen body s) \<noteq> Raised e)"
    then show "upsertUser now' gen' body' (snd (upsertUser now gen body s)) =
         (Sent 200 (Message ''User already exists''), snd (upsertUser now gen body s))"
      using again by simp
  qed
qed

text \<open>
  Claim C6 as stated fails: no user has the email \<^verbatim>\<open>b@example.com\<close>, yet the payload
  is not inserted, because its \<^verbatim>\<open>_id\<close> is the one of a stored user.
\<close>

theorem upsertUser_duplicate_id_counterexample:
  "findOne [(''email'', JStr ''b@example.com'')]
     [[(''_id'', JStr ''x''), (''email'', JStr ''a@example.com''), (''created_at'', JDate 1)]] = None \<and>
   upsertUser 2 ''0000000000000000000000f1''
     [(''_id'', JStr ''x''), (''email'', JStr ''b@example.com'')]
     \<lparr>usersCollection =
        [[(''_id'', JStr ''x''), (''email'', JStr ''a@example.com''), (''created_at'', JDate 1)]],
      parcelCollection = [], paymentsCollection = [], ridersCollection = []\<rparr> =
     (Raised DuplicateKey,
      \<lparr>usersCollection =
        [[(''_id'', JStr ''x''), (''email'', JStr ''a@example.com''), (''created_at'', JDate 1)]],
      parcelCollection = [], paymentsCollection = [], ridersCollection = []\<rparr>)"
  by (simp add: upsertUser_def insertOne_def doc_id_def eval_query)

text \<open>
  The amended C6 at work: a new user is appended with the server's timestamp, a second
  call with that email changes nothing, and so does a call with the email of a stored user.
\<close>

theorem upsertUser_idempotent_witness:
  "(\<exists>u. upsertUser 7 ''0000000000000000000000a9''
            [(''email'', JStr ''new@example.com''), (''name'', JStr ''N'')] ex_store =
          (Sent 200 (InsertResult (JOid ''0000000000000000000000a9'')),
           ex_store\<lparr>usersCollection := [ex_admin, ex_user, u]\<rparr>) \<and>
        map_of u ''created_at'' = Some (JDate 7) \<and>
        map_of u ''email'' = Some (JStr ''new@example.com'')) \<and>
   upsertUser 8 ''0000000000000000000000aa''
     [(''email'', JStr ''new@example.com''), (''name'', JStr ''M'')]
     (snd (upsertUser 7 ''0000000000000000000000a9''
            [(''email'', JStr ''new@example.com''), (''name'', JStr ''N'')] ex_store)) =
     (Sent 200 (Message ''User already exists''),
      snd (upsertUser 7 ''0000000000000000000000a9''
            [(''email'', JStr ''new@example.com''), (''name'', JStr ''N'')] ex_store)) \<and>
   upsertUser 8 ''0000000000000000000000aa'' [(''email'', JStr ''r@example.com'')] ex_store =
     (Sent 200 (Message ''User already exists''), ex_store)"
proof -
  let ?b = "[(''email'', JStr ''new@example.com''), (''name'', JStr ''N'')]"
  have n: "findOne [(''email'', JStr ''new@example.com'')] (usersCollection ex_store) = None"
    by (simp add: ex_store_def ex_docs eval_query)
  have f: "findOne [(''email'', JStr ''r@example.com'')] (usersCollection ex_store) = Some ex_user"
    by (simp add: ex_store_def ex_docs eval_query)
  have fresh: "Some (JOid ''0000000000000000000000a9'') \<notin>
                 set (map doc_id (usersCollection ex_store))"
    by (simp add: ex_store_def ex_docs doc_id_def)
  have us: "usersCollection ex_store = [ex_admin, ex_user]" by (simp add: ex_store_def)
  note a = upsertUser_idempotent[where body = ?b and E = "Some (JStr ''new@example.com'')"
      and i = "JOid ''0000000000000000000000a9''" and gen = "''0000000000000000000000a9''"
      and now = 7 and s = ex_store]
  note b = upsertUser_idempotent[where body = "[(''email'', JStr ''r@example.com'')]"
      and E = "Some (JStr ''r@example.com'')"
      and i = "JOid ''0000000000000000000000aa''" and gen = "''0000000000000000000000aa''"
      and now = 8 and s = ex_store]
  have A: "\<exists>u. upsertUser 7 ''0000000000000000000000a9'' ?b ex_store =
          (Sent 200 (InsertResult (JOid ''0000000000000000000000a9'')),
           ex_store\<lparr>usersCollection := [ex_admin, ex_user, u]\<rparr>) \<and>
        map_of u ''created_at'' = Some (JDate 7) \<and>
        map_of u ''email'' = Some (JStr ''new@example.com'')"
    using a n fresh us by (simp only: ) (auto 0 3)
  then have nr: "\<forall>e. fst (upsertUser 7 ''0000000000000000000000a9'' ?b ex_store) \<noteq> Raised e"
    by auto
  have B: "upsertUser 8 ''0000000000000000000000aa''
     [(''email'', JStr ''new@example.com''), (''name'', JStr ''M'')]
     (snd (upsertUser 7 ''0000000000000000000000a9'' ?b ex_store)) =
     (Sent 200 (Message ''User already exists''),
      snd (upsertUser 7 ''0000000000000000000000a9'' ?b ex_store))"
    using a nr by simp
  have C: "upsertUser 8 ''0000000000000000000000aa'' [(''email'', JStr ''r@example.com'')] ex_store =
     (Sent 200 (Message ''User already exists''), ex_store)"
    using b f by simp
  from A B C show ?thesis by blast
qed

section \<open>Listing parcels (C7)\<close>

text \<open>
  Claim C7, as amended. \<^verbatim>\<open>GET /parcels\<close> with a verified credential answers 200 with
  exactly the stored parcels (each as often as it is stored) whose \<^verbatim>\<open>payment_status\<close>
  and \<^verbatim>\<open>delivery_status\<close> equal the filters given, where a filter that is absent or
  the empty string filters nothing. The answer is sorted by \<^verbatim>\<open>createdAt\<close> descending
  in the order of BSON values; in particular, of two parcels whose \<^verbatim>\<open>createdAt\<close> are
  dates the newer comes first.
\<close>

theorem listParcels_filtered_sorted:
  assumes gate: "verifyFBToken verifyIdToken authHeader = Inr d"
  shows
   "\<exists>ps. get_parcels verifyIdToken authHeader payment_status delivery_status s =
           Sent 200 (Docs ps) \<and>
         mset ps =
           mset (filter
                   (\<lambda>p. (case payment_status of
                            None \<Rightarrow> True
                          | Some x \<Rightarrow> x = [] \<or> map_of p ''payment_status'' = Some (JStr x)) \<and>
                         (case delivery_status of
                            None \<Rightarrow> True
                          | Some y \<Rightarrow> y = [] \<or> map_of p ''delivery_status'' = Some (JStr y)))
                   (parcelCollection s)) \<and>
         sorted_wrt (\<lambda>a b. bson_key (map_of b ''createdAt'') \<le> bson_key (map_of a ''createdAt''))
           ps \<and>
         (\<forall>i j t t'. i < j \<and> j < length ps \<and>
                      map_of (ps ! i) ''createdAt'' = Some (JDate t) \<and>
                      map_of (ps ! j) ''createdAt'' = Some (JDate t') \<longrightarrow> t' \<le> t)"
proof -
  let ?q1 = "if truthy (qparam payment_status)
             then [(''payment_status'', to_bson (qparam payment_status))] else []"
  let ?q2 = "if truthy (qparam delivery_status)
             then [(''delivery_status'', to_bson (qparam delivery_status))] else []"
  let ?want = "\<lambda>p. (case payment_status of
                            None \<Rightarrow> True
                          | Some x \<Rightarrow> x = [] \<or> map_of p ''payment_status'' = Some (JStr x)) \<and>
                         (case delivery_status of
                            None \<Rightarrow> True
                          | Some y \<Rightarrow> y = [] \<or> map_of p ''delivery_status'' = Some (JStr y))"
  let ?ps = "sort_desc ''createdAt'' (find_docs (?q1 @ ?q2) (parcelCollection s))"
  have m1: "matches ?q1 p =
      (case payment_status of
         None \<Rightarrow> True | Some x \<Rightarrow> x = [] \<or> map_of p ''payment_status'' = Some (JStr x))" for p
    by (cases payment_status) (simp_all add: qparam_def matches_def field_matches_def)
  have m2: "matches ?q2 p =
      (case delivery_status of
         None \<Rightarrow> True | Some y \<Rightarrow> y = [] \<or> map_of p ''delivery_status'' = Some (JStr y))" for p
    by (cases delivery_status) (simp_all add: qparam_def matches_def field_matches_def)
  have m: "matches (?q1 @ ?q2) = ?want"
    by (rule ext) (simp only: matches_append m1 m2)
  have run: "get_parcels verifyIdToken authHeader payment_status delivery_status s =
               Sent 200 (Docs ?ps)"
    using gate by (simp add: get_parcels_def listParcels_def Let_def)
  have ms: "mset ?ps = mset (filter ?want (parcelCollection s))"
    by (simp only: sort_desc_mset find_docs_def m)
  have so: "sorted_wrt (\<lambda>a b. bson_key (map_of b ''createdAt'') \<le> bson_key (map_of a ''createdAt''))
              ?ps"
    by (rule sort_desc_sorted)
  have da: "\<forall>i j t t'. i < j \<and> j < length ?ps \<and>
                      map_of (?ps ! i) ''createdAt'' = Some (JDate t) \<and>
                      map_of (?ps ! j) ''createdAt'' = Some (JDate t') \<longrightarrow> t' \<le> t"
    using sort_desc_dates[OF refl] by blast
  from run ms so da show ?thesis by blast
qed

text \<open>
  Claim C7 as stated fails: the request \<^verbatim>\<open>GET /parcels?payment_status=\<close> provides the
  filter value \<^verbatim>\<open>""\<close>, yet the answer holds parcels whose \<^verbatim>\<open>payment_status\<close> is
  \<^verbatim>\<open>"paid"\<close> and \<^verbatim>\<open>"unpaid"\<close>: the handler drops a falsy filter.
\<close>

theorem listParcels_empty_filter_counterexample:
  "get_parcels ex_verifyIdToken (Some ''Bearer tok-r'') (Some []) None ex_store =
     Sent 200 (Docs [ex_parcel_paid, ex_parcel_unpaid]) \<and>
   map_of ex_parcel_paid ''payment_status'' = Some (JStr ''paid'') \<and>
   map_of ex_parcel_unpaid ''payment_status'' = Some (JStr ''unpaid'')"
  by (simp add: get_parcels_def verifyFBToken_def ex_verifyIdToken_def listParcels_def
      qparam_def find_docs_def matches_def sort_desc_def ex_store_def ex_docs less_eq_prod_def)

text \<open>
  The amended C7 at work: the filter \<^verbatim>\<open>payment_status = "paid"\<close> selects the paid parcel,
  the filter \<^verbatim>\<open>delivery_status = "pending"\<close> both parcels, newest first.
\<close>

theorem listParcels_filtered_sorted_witness:
  "verifyFBToken ex_verifyIdToken (Some ''Bearer tok-r'') = Inr \<lparr>email = Some ''r@example.com''\<rparr> \<and>
   get_parcels ex_verifyIdToken (Some ''Bearer tok-r'') (Some ''paid'') None ex_store =
     Sent 200 (Docs [ex_parcel_paid]) \<and>
   (\<exists>ps. get_parcels ex_verifyIdToken (Some ''Bearer tok-r'') None (Some ''pending'') ex_store =
           Sent 200 (Docs ps) \<and> mset ps = {#ex_parcel_paid, ex_parcel_unpaid#} \<and>
           sorted_wrt (\<lambda>a b. bson_key (map_of b ''createdAt'') \<le> bson_key (map_of a ''createdAt''))
             ps)"
proof -
  have g: "verifyFBToken ex_verifyIdToken (Some ''Bearer tok-r'') =
             Inr \<lparr>email = Some ''r@example.com''\<rparr>"
    by (simp add: verifyFBToken_def ex_verifyIdToken_def)
  note a = listParcels_filtered_sorted[OF g, where payment_status = "Some ''paid''"
      and delivery_status = None and s = ex_store]
  note b = listParcels_filtered_sorted[OF g, where payment_status = None
      and delivery_status = "Some ''pending''" and s = ex_store]
  have A: "get_parcels ex_verifyIdToken (Some ''Bearer tok-r'') (Some ''paid'') None ex_store =
     Sent 200 (Docs [ex_parcel_paid])"
    using a by (auto simp: ex_store_def ex_docs)
  have B: "\<exists>ps. get_parcels ex_verifyIdToken (Some ''Bearer tok-r'') None (Some ''pending'') ex_store =
           Sent 200 (Docs ps) \<and> mset ps = {#ex_parcel_paid, ex_parcel_unpaid#} \<and>
           sorted_wrt (\<lambda>a b. bson_key (map_of b ''createdAt'') \<le> bson_key (map_of a ''createdAt''))
             ps"
    using b by (auto simp: ex_store_def ex_docs)
  from g A B show ?thesis by blast
qed

section \<open>Listing payments (C8)\<close>




section \<open>Setting a user role (C9)\<close>

text \<open>
  Claim C9, as amended. \<^verbatim>\<open>PATCH /users/:id/role\<close>: a role other than \<^verbatim>\<open>"admin"\<close> and
  \<^verbatim>\<open>"user"\<close> is answered with 400 (BadRequest) and the store is not touched. For a
  valid role the outcome depends on the identifier: one that is not 24 hexadecimal digits
  is answered with 500 and the store is not touched; a well-formed one that no user
  carries is answered with 200 and the counts 0 and 0, the store unchanged; a well-formed
  one that resolves is answered with 200, the user found under that identifier now has
  the role, the modified count is 1 unless the user had that role already, and the other
  collections are unchanged.
\<close>

theorem setUserRole_cases:
  "(role \<noteq> Some (JStr ''admin'') \<and> role \<noteq> Some (JStr ''user'') \<longrightarrow>
      setUserRole ident role s = (Sent 400 (Error ''Invalid role''), s)) \<and>
   (role = Some (JStr ''admin'') \<or> role = Some (JStr ''user'') \<longrightarrow>
      (ObjectId_fromString ident = Inl BSONError \<longrightarrow>
         setUserRole ident role s = (Sent 500 (Error ''Could not update user role''), s)) \<and>
      (\<forall>oid. ObjectId_fromString ident = Inr oid \<longrightarrow>
         (findOne [(''_id'', JOid oid)] (usersCollection s) = None \<longrightarrow>
            setUserRole ident role s =
              (Sent 200 (UpdateResult \<lparr>matchedCount = 0, modifiedCount = 0\<rparr>), s)) \<and>
         (\<forall>u. findOne [(''_id'', JOid oid)] (usersCollection s) = Some u \<longrightarrow>
            (\<exists>s'. setUserRole ident role s =
                    (Sent 200 (UpdateResult
                       \<lparr>matchedCount = 1,
                        modifiedCount = (if map_of u ''role'' = role then 0 else 1)\<rparr>), s') \<and>
                  findOne [(''_id'', JOid oid)] (usersCollection s') =
                    Some (set_field ''role'' (to_bson role) u) \<and>
                  map_of (set_field ''role'' (to_bson role) u) ''role'' = role \<and>
                  parcelCollection s' = parcelCollection s \<and>
                  paymentsCollection s' = paymentsCollection s \<and>
                  ridersCollection s' = ridersCollection s))))"
proof (intro conjI impI allI)
  assume "role \<noteq> Some (JStr ''admin'') \<and> role \<noteq> Some (JStr ''user'')"
  then show "setUserRole ident role s = (Sent 400 (Error ''Invalid role''), s)"
    by (simp add: setUserRole_def)
next
  assume "role = Some (JStr ''admin'') \<or> role = Some (JStr ''user'')"
    and "ObjectId_fromString ident = Inl BSONError"
  then show "setUserRole ident role s = (Sent 500 (Error ''Could not update user role''), s)"
    by (auto simp: setUserRole_def)
next
  fix oid
  assume r: "role = Some (JStr ''admin'') \<or> role = Some (JStr ''user'')"
    and o: "ObjectId_fromString ident = Inr oid"
    and n: "findOne [(''_id'', JOid oid)] (usersCollection s) = None"
  from r o show "setUserRole ident role s =
      (Sent 200 (UpdateResult \<lparr>matchedCount = 0, modifiedCount = 0\<rparr>), s)"
    by (auto simp: setUserRole_def updateOne_no_match[OF n])
next
  fix oid u
  assume r: "role = Some (JStr ''admin'') \<or> role = Some (JStr ''user'')"
    and o: "ObjectId_fromString ident = Inr oid"
    and f: "findOne [(''_id'', JOid oid)] (usersCollection s) = Some u"
  let ?q = "[(''_id'', JOid oid)]"
  let ?u' = "set_field ''role'' (to_bson role) u"
  from updateOne_match[OF f, of "[(''role'', to_bson role)]"] obtain pre post where
    us: "usersCollection s = pre @ u # post" and pre: "\<forall>x \<in> set pre. \<not> matches ?q x" and
    up: "updateOne ?q [(''role'', to_bson role)] (usersCollection s) =
          (\<lparr>matchedCount = 1, modifiedCount = (if ?u' = u then 0 else 1)\<rparr>, pre @ ?u' # post)"
    by auto
  from f have mu: "matches ?q u"
    by (auto simp: findOne_def find_Some_iff)
  then have mu': "matches ?q ?u'" by (simp add: matches_id_set_field)
  from r have tb: "Some (to_bson role) = role" by auto
  have same: "(?u' = u) = (map_of u ''role'' = role)"
    using set_field_noop[of u "''role''" "to_bson role"]
      set_field_changed[of u "''role''" "to_bson role"] tb by auto
  let ?s' = "s\<lparr>usersCollection := pre @ ?u' # post\<rparr>"
  have "setUserRole ident role s =
          (Sent 200 (UpdateResult
             \<lparr>matchedCount = 1, modifiedCount = (if map_of u ''role'' = role then 0 else 1)\<rparr>), ?s')"
    using r o up same by (auto simp: setUserRole_def)
  moreover have "findOne ?q (usersCollection ?s') = Some ?u'"
    using findOne_append_match[OF pre mu'] by simp
  moreover have "map_of ?u' ''role'' = role"
    using tb by (simp add: map_of_set_field)
  ultimately show "\<exists>s'. setUserRole ident role s =
                    (Sent 200 (UpdateResult
                       \<lparr>matchedCount = 1,
                        modifiedCount = (if map_of u ''role'' = role then 0 else 1)\<rparr>), s') \<and>
                  findOne ?q (usersCollection s') = Some ?u' \<and>
                  map_of ?u' ''role'' = role \<and>
                  parcelCollection s' = parcelCollection s \<and>
                  paymentsCollection s' = paymentsCollection s \<and>
                  ridersCollection s' = ridersCollection s"
    by (intro exI[of _ ?s']) simp
qed

text \<open>
  Claim C9 as stated fails: with the valid role \<^verbatim>\<open>"admin"\<close> and the identifier
  \<^verbatim>\<open>abc\<close> the request does not succeed with a zero modified count; constructing the
  ObjectId throws and the handler answers 500.
\<close>

theorem setUserRole_malformed_id_counterexample:
  "setUserRole ''abc'' (Some (JStr ''admin'')) ex_store =
     (Sent 500 (Error ''Could not update user role''), ex_store)"
  by (simp add: setUserRole_def eval_oid)

text \<open>
  The amended C9 at work: the user \<^verbatim>\<open>r@example.com\<close> is made an administrator, and the
  role \<^verbatim>\<open>"rider"\<close> is refused.
\<close>

theorem setUserRole_cases_witness:
  "ObjectId_fromString ''0000000000000000000000A2'' = Inr ''0000000000000000000000a2'' \<and>
   findOne [(''_id'', JOid ''0000000000000000000000a2'')] (usersCollection ex_store) = Some ex_user \<and>
   fst (setUserRole ''0000000000000000000000A2'' (Some (JStr ''admin'')) ex_store) =
     Sent 200 (UpdateResult \<lparr>matchedCount = 1, modifiedCount = 1\<rparr>) \<and>
   setUserRole ''0000000000000000000000A2'' (Some (JStr ''rider'')) ex_store =
     (Sent 400 (Error ''Invalid role''), ex_store)"
proof -
  have o: "ObjectId_fromString ''0000000000000000000000A2'' = Inr ''0000000000000000000000a2''"
    by (simp add: eval_oid)
  have f: "findOne [(''_id'', JOid ''0000000000000000000000a2'')] (usersCollection ex_store) =
             Some ex_user"
    by (simp add: ex_store_def ex_docs eval_query)
  have r: "map_of ex_user ''role'' \<noteq> Some (JStr ''admin'')"
    by (simp add: ex_user_def)
  show ?thesis
    using o f r
      setUserRole_cases[where role = "Some (JStr ''admin'')"
        and ident = "''0000000000000000000000A2''" and s = ex_store]
      setUserRole_cases[where role = "Some (JStr ''rider'')"
        and ident = "''0000000000000000000000A2''" and s = ex_store]
    by auto
qed

section \<open>Riders of a district (C10)\<close>

text \<open>
  Claim C10. \<^verbatim>\<open>GET /riders/available\<close> with a non-empty district answers 200 with
  exactly the stored riders whose \<^verbatim>\<open>district\<close> field equals the query, in stored order.
  Nothing else is tested: every rider of the district is in the answer, whatever its
  \<^verbatim>\<open>status\<close> and \<^verbatim>\<open>work_status\<close>.
\<close>

theorem availableRiders_by_district:
  "district \<noteq> [] \<Longrightarrow>
   availableRiders (Some district) s =
     Sent 200 (Docs (filter (\<lambda>r. map_of r ''district'' = Some (JStr district))
                       (ridersCollection s))) \<and>
   (\<forall>r \<in> set (ridersCollection s).
      map_of r ''district'' = Some (JStr district) \<longrightarrow>
      (\<exists>rs. availableRiders (Some district) s = Sent 200 (Docs rs) \<and> r \<in> set rs))"
  by (simp add: availableRiders_def qparam_def find_docs_def matches_single)

text \<open>
  C10 at work: of the three riders the two in Dhaka are returned, one of them pending,
  the other rejected and in delivery.
\<close>

theorem availableRiders_by_district_witness:
  "availableRiders (Some ''Dhaka'') ex_store =
     Sent 200 (Docs [ex_rider_pending, ex_rider_rejected]) \<and>
   map_of ex_rider_pending ''status'' = Some (JStr ''pending'') \<and>
   map_of ex_rider_rejected ''status'' = Some (JStr ''rejected'') \<and>
   map_of ex_rider_rejected ''work_status'' = Some (JStr ''in_delivery'')"
  using availableRiders_by_district[where district = "''Dhaka''" and s = ex_store]
  by (simp add: ex_store_def ex_docs)

end
